theory Spec2Isabelle
  imports Complex_Main "HOL-Library.AList"
begin

section \<open>Values held by a data frame\<close>

text \<open>
  Every cell of the price table is a Python float. The decision rule only compares
  cells, and a comparison of two floats is exact, so a cell is modelled by the number
  it denotes: a real, one of the two infinities, or NaN (the value pandas uses for an
  undefined sample).
\<close>

datatype pyfloat = NaN | NegInf | Finite real | PosInf

text \<open>\<^verbatim>\<open>a < b\<close> on floats: false as soon as one operand is NaN.\<close>

fun py_lt :: "pyfloat \<Rightarrow> pyfloat \<Rightarrow> bool" where
  "py_lt (Finite a) (Finite b) = (a < b)"
| "py_lt NegInf (Finite b) = True"
| "py_lt NegInf PosInf = True"
| "py_lt (Finite a) PosInf = True"
| "py_lt _ _ = False"

text \<open>\<^verbatim>\<open>a > b\<close> is \<^verbatim>\<open>b < a\<close>; \<^verbatim>\<open>a <= b\<close> holds when neither is NaN and \<^verbatim>\<open>b < a\<close> fails.\<close>

definition py_gt :: "pyfloat \<Rightarrow> pyfloat \<Rightarrow> bool" where
  "py_gt a b = py_lt b a"

definition py_le :: "pyfloat \<Rightarrow> pyfloat \<Rightarrow> bool" where
  "py_le a b = (a \<noteq> NaN \<and> b \<noteq> NaN \<and> \<not> py_lt b a)"

datatype py_error = IndexError | KeyError | ValueError | AttributeError | LibraryError

text \<open>Sequencing of computations that may raise: the first exception ends the run.\<close>

definition bind_err :: "py_error + 'a \<Rightarrow> ('a \<Rightarrow> py_error + 'b) \<Rightarrow> py_error + 'b" where
  "bind_err m f = (case m of Inl e \<Rightarrow> Inl e | Inr x \<Rightarrow> f x)"

section \<open>The data frame\<close>

text \<open>
  A pandas DataFrame: the row labels (the bars' timestamps) and the labelled columns
  in their order. A row read out of it is a pandas Series: the cells of that row,
  labelled by column.
\<close>

type_synonym column = "pyfloat list"

type_synonym series = "(string \<times> pyfloat) list"

record dataframe =
  df_index :: "int list"
  df_columns :: "(string \<times> column) list"

text \<open>\<^verbatim>\<open>df.empty\<close>: one of the two axes has length 0.\<close>

definition df_empty :: "dataframe \<Rightarrow> bool" where
  "df_empty df = (df_index df = [] \<or> df_columns df = [])"

text \<open>
  pandas aligns every column with the index and holds NaN where a column has no value
  for a row, so a position past the end of a stored column reads NaN.
\<close>

definition cell :: "column \<Rightarrow> nat \<Rightarrow> pyfloat" where
  "cell vs j = (if j < length vs then vs ! j else NaN)"

text \<open>
  \<^verbatim>\<open>df.iloc[i]\<close>: the row at position \<open>i\<close>, a negative \<open>i\<close> counting from the end;
  IndexError when the position is outside the index.
\<close>

definition iloc :: "dataframe \<Rightarrow> int \<Rightarrow> py_error + series" where
  "iloc df i =
     (let n = int (length (df_index df)); j = (if i < 0 then n + i else i)
      in if 0 \<le> j \<and> j < n
         then Inr (map (\<lambda>(c, vs). (c, cell vs (nat j))) (df_columns df))
         else Inl IndexError)"

text \<open>\<^verbatim>\<open>col in row\<close> tests the labels of the Series, not its values.\<close>

definition contains :: "series \<Rightarrow> string \<Rightarrow> bool" where
  "contains row col = (map_of row col \<noteq> None)"

text \<open>\<^verbatim>\<open>row[col]\<close>: KeyError when the label is absent.\<close>

definition getitem :: "series \<Rightarrow> string \<Rightarrow> py_error + pyfloat" where
  "getitem row col = (case map_of row col of None \<Rightarrow> Inl KeyError | Some v \<Rightarrow> Inr v)"

section \<open>The trading bot and its decision rule\<close>

record trading_bot =
  symbol :: string
  interval :: string
  period :: string
  data :: "dataframe option"

datatype signal = BUY | SELL | HOLD

text \<open>
  What \<^verbatim>\<open>generate_signal\<close> returns: the pair \<^verbatim>\<open>('HOLD', None)\<close> on its two early
  exits, the triple (signal, price, reason) at its end.
\<close>

datatype retval = Tuple2 signal "pyfloat option" | Tuple3 signal pyfloat string

definition required_cols :: "string list" where
  "required_cols = [''RSI_14'', ''MACD'', ''MACD_S'', ''SMA_200'']"

definition buy_reason :: string where
  "buy_reason =
     ''STRONG BUY: Confirmed Uptrend (Price > SMA_200) + MACD Bullish Cross + Healthy RSI (< 70).''"

definition sell_reason :: string where
  "sell_reason = ''SELL: Confirmed Downtrend (Price < SMA_200) + MACD Bearish Signal.''"

definition hold_reason :: string where
  "hold_reason = ''HOLD: Awaiting clearer trend or momentum signal.''"

text \<open>
  \<^verbatim>\<open>TradingBot.generate_signal\<close>. The reads follow the source's order, and the right
  operand of the crossover's \<^verbatim>\<open>and\<close> is read only when the left one holds. The
  \<^verbatim>\<open>print\<close> calls write to the console and return nothing; they are left out.
\<close>

definition generate_signal :: "trading_bot \<Rightarrow> py_error + retval" where
  "generate_signal self =
     (case data self of
        None \<Rightarrow> Inr (Tuple2 HOLD None)
      | Some df \<Rightarrow>
          if df_empty df then Inr (Tuple2 HOLD None)
          else
            bind_err (iloc df (- 1)) (\<lambda>latest.
            bind_err (iloc df (- 2)) (\<lambda>previous.
            if \<not> list_all (\<lambda>col. contains latest col) required_cols
            then Inr (Tuple2 HOLD None)
            else
              bind_err (getitem latest ''Close'') (\<lambda>close.
              bind_err (getitem latest ''SMA_200'') (\<lambda>sma_200.
              let is_uptrend = py_gt close sma_200 in
              bind_err (getitem latest ''MACD'') (\<lambda>macd.
              bind_err (getitem latest ''MACD_S'') (\<lambda>macd_s.
              bind_err
                (if py_gt macd macd_s
                 then bind_err (getitem previous ''MACD'') (\<lambda>prev_macd.
                      bind_err (getitem previous ''MACD_S'') (\<lambda>prev_macd_s.
                      Inr (py_le prev_macd prev_macd_s)))
                 else Inr False) (\<lambda>is_macd_bullish_cross.
              bind_err (getitem latest ''RSI_14'') (\<lambda>rsi.
              bind_err (getitem previous ''RSI_14'') (\<lambda>prev_rsi.
              let is_rsi_rising = py_gt rsi prev_rsi;
                  is_rsi_safe = py_lt rsi (Finite 70)
              in
                if is_uptrend \<and> is_macd_bullish_cross \<and> is_rsi_rising \<and> is_rsi_safe
                then Inr (Tuple3 BUY close buy_reason)
                else if py_lt close sma_200 \<and> py_lt macd macd_s \<and> py_gt rsi (Finite 50)
                then Inr (Tuple3 SELL close sell_reason)
                else Inr (Tuple3 HOLD close hold_reason)))))))))))"

text \<open>The signal and the reason carried by a result, when there is one.\<close>

fun signal_of :: "py_error + retval \<Rightarrow> signal option" where
  "signal_of (Inl e) = None"
| "signal_of (Inr (Tuple2 s p)) = Some s"
| "signal_of (Inr (Tuple3 s p r)) = Some s"

fun reason_of :: "py_error + retval \<Rightarrow> string option" where
  "reason_of (Inr (Tuple3 s p r)) = Some r"
| "reason_of _ = None"

section \<open>The indicator library\<close>

text \<open>
  \<^verbatim>\<open>calculate_indicators\<close> calls the technical-analysis library \<^verbatim>\<open>pandas_ta\<close>,
  which the repository uses and does not contain. The calls are parameters of the
  model: each one reads the frame and either raises or returns the columns it has
  computed, each under the label the library gives it (no column when the library
  declines to compute). Neither the values nor the labels are fixed by the source.
\<close>

record ta_lib =
  ta_rsi :: "dataframe \<Rightarrow> py_error + (string \<times> column) list"
  ta_macd :: "dataframe \<Rightarrow> py_error + (string \<times> column) list"
  ta_sma :: "nat \<Rightarrow> dataframe \<Rightarrow> py_error + (string \<times> column) list"

text \<open>
  \<^verbatim>\<open>append=True\<close> stores every computed column in the frame under its label: over
  the column that has this label when there is one, at the end otherwise.
\<close>

fun append_cols :: "(string \<times> column) list \<Rightarrow> dataframe \<Rightarrow> dataframe" where
  "append_cols [] df = df"
| "append_cols ((name, vs) # rest) df =
     append_cols rest (df\<lparr>df_columns := AList.update name vs (df_columns df)\<rparr>)"

text \<open>\<^verbatim>\<open>df.rename(columns=...)\<close>: every label with an entry in the dictionary is replaced.\<close>

definition rename_label :: "(string \<times> string) list \<Rightarrow> string \<Rightarrow> string" where
  "rename_label m c = (case map_of m c of None \<Rightarrow> c | Some c' \<Rightarrow> c')"

definition rename_columns :: "(string \<times> string) list \<Rightarrow> dataframe \<Rightarrow> dataframe" where
  "rename_columns m df =
     df\<lparr>df_columns := map (\<lambda>(c, vs). (rename_label m c, vs)) (df_columns df)\<rparr>"

definition macd_renames :: "(string \<times> string) list" where
  "macd_renames =
     [(''MACD_12_26_9'', ''MACD''), (''MACDH_12_26_9'', ''MACD_H''), (''MACDS_12_26_9'', ''MACD_S'')]"

text \<open>\<^verbatim>\<open>TradingBot.calculate_indicators\<close>.\<close>

definition calculate_indicators :: "ta_lib \<Rightarrow> trading_bot \<Rightarrow> py_error + trading_bot" where
  "calculate_indicators ta self =
     (case data self of
        None \<Rightarrow> Inr self
      | Some df \<Rightarrow>
          if df_empty df then Inr self
          else
            bind_err (ta_rsi ta df) (\<lambda>r.
            let df1 = append_cols r df in
            bind_err (ta_macd ta df1) (\<lambda>m.
            let df2 = append_cols m df1 in
            bind_err (ta_sma ta 50 df2) (\<lambda>s50.
            let df3 = append_cols s50 df2 in
            bind_err (ta_sma ta 200 df3) (\<lambda>s200.
            let df4 = append_cols s200 df3 in
            Inr (self\<lparr>data := Some (rename_columns macd_renames df4)\<rparr>))))))"


section \<open>The run\<close>

definition SYMBOL :: string where
  "SYMBOL = ''GC=F''"

definition INTERVAL :: string where
  "INTERVAL = ''1h''"

definition PERIOD :: string where
  "PERIOD = ''3d''"

text \<open>\<^verbatim>\<open>TradingBot.__init__\<close>: the bot starts with an empty frame.\<close>

definition init :: "string \<Rightarrow> string \<Rightarrow> string \<Rightarrow> trading_bot" where
  "init s i p =
     \<lparr>symbol = s, interval = i, period = p,
      data = Some \<lparr>df_index = [], df_columns = []\<rparr>\<rparr>"

text \<open>
  \<^verbatim>\<open>TradingBot.fetch_data\<close>. What the data provider answers (a frame, or an exception)
  is a parameter. Every exception inside the \<^verbatim>\<open>try\<close> leaves \<^verbatim>\<open>data = None\<close>: the
  provider's own, the ValueError raised on an empty frame, and the KeyError of the
  message that reads the latest \<^verbatim>\<open>Close\<close>.
\<close>

definition fetch_data :: "py_error + dataframe \<Rightarrow> trading_bot \<Rightarrow> trading_bot" where
  "fetch_data history self =
     (case history of
        Inl e \<Rightarrow> self\<lparr>data := None\<rparr>
      | Inr df \<Rightarrow>
          if df_empty df then self\<lparr>data := None\<rparr>
          else (case map_of (df_columns df) ''Close'' of
                  None \<Rightarrow> self\<lparr>data := None\<rparr>
                | Some vs \<Rightarrow> self\<lparr>data := Some df\<rparr>))"

text \<open>The final action report, the one output of a run that carries a decision.\<close>

record report =
  rep_asset :: string
  rep_time :: int
  rep_price :: pyfloat
  rep_signal :: signal
  rep_reason :: string

datatype outcome = Exited | Raised py_error | Reported report

text \<open>
  \<^verbatim>\<open>run_trading_strategy\<close>. The result of \<^verbatim>\<open>generate_signal\<close> is unpacked into three
  variables, which raises ValueError on a pair.
\<close>

definition run_trading_strategy :: "ta_lib \<Rightarrow> py_error + dataframe \<Rightarrow> outcome" where
  "run_trading_strategy ta history =
     (let bot = fetch_data history (init SYMBOL INTERVAL PERIOD) in
      case data bot of
        None \<Rightarrow> Exited
      | Some df \<Rightarrow>
          if df_empty df then Exited
          else
            (case calculate_indicators ta bot of
               Inl e \<Rightarrow> Raised e
             | Inr bot' \<Rightarrow>
                 (case generate_signal bot' of
                    Inl e \<Rightarrow> Raised e
                  | Inr (Tuple2 s p) \<Rightarrow> Raised ValueError
                  | Inr (Tuple3 sig price reason) \<Rightarrow>
                      (case data bot' of
                         None \<Rightarrow> Raised AttributeError
                       | Some df' \<Rightarrow>
                           if df_index df' = [] then Raised IndexError
                           else Reported
                             \<lparr>rep_asset = SYMBOL, rep_time = last (df_index df'),
                              rep_price = price, rep_signal = sig,
                              rep_reason = reason\<rparr>))))"

text \<open>
  The paths of \<^verbatim>\<open>generate_signal\<close> that end in \<^verbatim>\<open>return 'HOLD', None\<close>: no data, an
  empty frame, or (once both rows have been read) a required label that is absent.
\<close>

definition two_tuple_path :: "trading_bot \<Rightarrow> bool" where
  "two_tuple_path self =
     (case data self of
        None \<Rightarrow> True
      | Some df \<Rightarrow>
          df_empty df \<or>
          (2 \<le> length (df_index df) \<and>
           \<not> list_all (\<lambda>col. col \<in> set (map fst (df_columns df))) required_cols))"

section \<open>The indicators as the specification describes them\<close>

text \<open>
  The indicator functions of \<^verbatim>\<open>pandas_ta\<close> (rsi, macd, sma) are called by
  \<^verbatim>\<open>calculate_indicators\<close> and are not part of the repository. The definitions of
  this section follow section 4.1 of the specification instead. Their arithmetic is
  that of the reals, and an undefined sample is \<open>None\<close>.
\<close>

text \<open>
  Modelled from the spec: the recurrence of exponential smoothing with factor \<open>alpha\<close>, which
  \<^verbatim>\<open>pandas_ta\<close> (absent from the repository) runs inside its EMA and its RSI.
\<close>

fun smooth_from :: "real \<Rightarrow> real \<Rightarrow> real list \<Rightarrow> real list" where
  "smooth_from alpha a [] = []"
| "smooth_from alpha a (v # vs) =
     (let a' = alpha * v + (1 - alpha) * a in a' # smooth_from alpha a' vs)"

text \<open>
  Modelled from the spec: a smoothed series of \<^verbatim>\<open>pandas_ta\<close> (absent from the repository), seeded by the
  simple average of the first \<open>n\<close> values and undefined before the seed.
\<close>

definition seeded_smooth :: "real \<Rightarrow> nat \<Rightarrow> real list \<Rightarrow> real option list" where
  "seeded_smooth alpha n vs =
     (if n = 0 \<or> length vs < n then replicate (length vs) None
      else (let seed = sum_list (take n vs) / real n
            in replicate (n - 1) None @ Some seed # map Some (smooth_from alpha seed (drop n vs))))"

text \<open>
  Modelled from the spec: the EMA of \<^verbatim>\<open>pandas_ta\<close> (absent from the repository), with the smoothing
  factor \<open>2 / (N + 1)\<close>.
\<close>

definition ema :: "nat \<Rightarrow> real list \<Rightarrow> real option list" where
  "ema n = seeded_smooth (2 / (real n + 1)) n"

text \<open>
  Modelled from the spec: the Wilder smoothing over \<open>n\<close> periods that the RSI of \<^verbatim>\<open>pandas_ta\<close>
  (absent from the repository) uses, with the factor \<open>1 / n\<close>.
\<close>

definition wilder :: "nat \<Rightarrow> real list \<Rightarrow> real option list" where
  "wilder n = seeded_smooth (1 / real n) n"

text \<open>
  Modelled from the spec: the close-to-close deltas read by the RSI of \<^verbatim>\<open>pandas_ta\<close> (absent from
  the repository).
\<close>

definition deltas :: "real list \<Rightarrow> real list" where
  "deltas xs = map (\<lambda>(a, b). b - a) (zip xs (tl xs))"

text \<open>
  Modelled from the spec: the average gain of the RSI of \<^verbatim>\<open>pandas_ta\<close> (absent from the repository),
  aligned with the bars: the first bar has no delta.
\<close>

definition avg_gain :: "nat \<Rightarrow> real list \<Rightarrow> real option list" where
  "avg_gain n xs =
     (if xs = [] then [] else None # wilder n (map (\<lambda>d. max d 0) (deltas xs)))"

text \<open>
  Modelled from the spec: the average loss of the RSI of \<^verbatim>\<open>pandas_ta\<close> (absent from the repository),
  aligned with the bars.
\<close>

definition avg_loss :: "nat \<Rightarrow> real list \<Rightarrow> real option list" where
  "avg_loss n xs =
     (if xs = [] then [] else None # wilder n (map (\<lambda>d. max (- d) 0) (deltas xs)))"

text \<open>
  Modelled from the spec: one RSI value of \<^verbatim>\<open>pandas_ta\<close> (absent from the repository) from the two
  averages; it is defined as 100 when the average loss is zero.
\<close>

fun rsi_value :: "real option \<Rightarrow> real option \<Rightarrow> real option" where
  "rsi_value (Some g) (Some l) = Some (if l = 0 then 100 else 100 - 100 / (1 + g / l))"
| "rsi_value _ _ = None"

text \<open>
  Modelled from the spec: the function \<^verbatim>\<open>rsi\<close> of \<^verbatim>\<open>pandas_ta\<close> (absent from the repository).
\<close>

definition rsi :: "nat \<Rightarrow> real list \<Rightarrow> real option list" where
  "rsi n xs = map (\<lambda>(g, l). rsi_value g l) (zip (avg_gain n xs) (avg_loss n xs))"

text \<open>
  Modelled from the spec: the function \<^verbatim>\<open>sma\<close> of \<^verbatim>\<open>pandas_ta\<close> (absent from the repository): the
  unweighted mean of the trailing window, undefined until the window is full.
\<close>

definition sma :: "nat \<Rightarrow> real list \<Rightarrow> real option list" where
  "sma n xs =
     map (\<lambda>i. if 0 < n \<and> n \<le> i + 1
              then Some (sum_list (take n (drop (i + 1 - n) xs)) / real n)
              else None)
       [0..<length xs]"

text \<open>
  Modelled from the spec: the difference of two samples inside the function \<^verbatim>\<open>macd\<close> of
  \<^verbatim>\<open>pandas_ta\<close> (absent from the repository), undefined when one of them is.
\<close>

fun sub_opt :: "real option \<Rightarrow> real option \<Rightarrow> real option" where
  "sub_opt (Some a) (Some b) = Some (a - b)"
| "sub_opt _ _ = None"

text \<open>
  Modelled from the spec: the MACD line of the function \<^verbatim>\<open>macd\<close> of \<^verbatim>\<open>pandas_ta\<close> (absent from the
  repository): EMA(12) - EMA(26).
\<close>

definition macd_line :: "real list \<Rightarrow> real option list" where
  "macd_line xs = map (\<lambda>(a, b). sub_opt a b) (zip (ema 12 xs) (ema 26 xs))"

text \<open>
  Modelled from the spec: the signal line of the function \<^verbatim>\<open>macd\<close> of \<^verbatim>\<open>pandas_ta\<close> (absent from
  the repository): the EMA(9) of the defined values of the MACD line.
\<close>

definition macd_signal :: "real list \<Rightarrow> real option list" where
  "macd_signal xs =
     (let m = macd_line xs; ds = List.map_filter (\<lambda>v. v) m
      in replicate (length m - length ds) None @ ema 9 ds)"

text \<open>
  Modelled from the spec: the histogram of the function \<^verbatim>\<open>macd\<close> of \<^verbatim>\<open>pandas_ta\<close> (absent from the
  repository): the MACD line minus the signal line.
\<close>

definition macd_hist :: "real list \<Rightarrow> real option list" where
  "macd_hist xs = map (\<lambda>(a, b). sub_opt a b) (zip (macd_line xs) (macd_signal xs))"

text \<open>Cells and real samples: a finite cell holds a real, an undefined sample is NaN.\<close>

fun finite_value :: "pyfloat \<Rightarrow> real option" where
  "finite_value (Finite r) = Some r"
| "finite_value _ = None"

fun to_cell :: "real option \<Rightarrow> pyfloat" where
  "to_cell None = NaN"
| "to_cell (Some r) = Finite r"

text \<open>The closes of a frame whose \<^verbatim>\<open>Close\<close> column holds finite prices only.\<close>

definition close_reals :: "dataframe \<Rightarrow> real list option" where
  "close_reals df =
     (case map_of (df_columns df) ''Close'' of
        None \<Rightarrow> None
      | Some vs \<Rightarrow> those (map finite_value vs))"

text \<open>
  The source does not fix the labels under which the library stores its columns. It
  reads \<^verbatim>\<open>RSI_14\<close> and \<^verbatim>\<open>SMA_200\<close> back as they are, and it renames
  \<^verbatim>\<open>MACD_12_26_9\<close>, \<^verbatim>\<open>MACDH_12_26_9\<close> and \<^verbatim>\<open>MACDS_12_26_9\<close>. For the histogram and the
  signal line two spellings are considered: the keys of the source's renaming, and
  the labels \<^verbatim>\<open>MACDh_12_26_9\<close> and \<^verbatim>\<open>MACDs_12_26_9\<close> with a lower-case letter, which
  is how \<^verbatim>\<open>pandas_ta\<close> spells them.
\<close>

datatype macd_spelling = Rename_keys | Library_case

fun macd_labels :: "macd_spelling \<Rightarrow> string \<times> string \<times> string" where
  "macd_labels Rename_keys = (''MACD_12_26_9'', ''MACDH_12_26_9'', ''MACDS_12_26_9'')"
| "macd_labels Library_case = (''MACD_12_26_9'', ''MACDh_12_26_9'', ''MACDs_12_26_9'')"

text \<open>
  The label of a moving average, for the two windows the source asks for.
\<close>

definition sma_label :: "nat \<Rightarrow> string" where
  "sma_label n = (if n = 50 then ''SMA_50'' else if n = 200 then ''SMA_200'' else ''SMA'')"

text \<open>
  Modelled from the spec: the calls \<^verbatim>\<open>df.ta.rsi\<close>, \<^verbatim>\<open>df.ta.macd\<close> and \<^verbatim>\<open>df.ta.sma\<close> of
  \<^verbatim>\<open>pandas_ta\<close> (absent from the repository), with the values that section 4.1 of the
  specification describes, for either spelling of the MACD labels. They never raise.
  The specification defines the indicators on well-formed bars; on a frame without
  finite closes this library declines.
\<close>

definition spec_ta :: "macd_spelling \<Rightarrow> ta_lib" where
  "spec_ta sp =
     \<lparr>ta_rsi = (\<lambda>df. Inr (case close_reals df of
          None \<Rightarrow> []
        | Some xs \<Rightarrow> [(''RSI_14'', map to_cell (rsi 14 xs))])),
      ta_macd = (\<lambda>df. Inr (case close_reals df of
          None \<Rightarrow> []
        | Some xs \<Rightarrow>
            (case macd_labels sp of
               (lm, lh, ls) \<Rightarrow>
                 [(lm, map to_cell (macd_line xs)), (lh, map to_cell (macd_hist xs)),
                  (ls, map to_cell (macd_signal xs))]))),
      ta_sma = (\<lambda>n df. Inr (case close_reals df of
          None \<Rightarrow> []
        | Some xs \<Rightarrow> [(sma_label n, map to_cell (sma n xs))]))\<rparr>"


text \<open>A library that declines every call: no indicator column is appended.\<close>

definition declining_ta :: ta_lib where
  "declining_ta =
     \<lparr>ta_rsi = (\<lambda>df. Inr []), ta_macd = (\<lambda>df. Inr []), ta_sma = (\<lambda>n df. Inr [])\<rparr>"

section \<open>Example frames\<close>

text \<open>Two enriched bars on which the latest bar completes a bullish crossover.\<close>

definition buy_frame :: dataframe where
  "buy_frame =
     \<lparr>df_index = [1, 2],
      df_columns =
        [(''Close'', [Finite 100, Finite 110]),
         (''RSI_14'', [Finite 50, Finite 60]),
         (''MACD'', [Finite (- 1), Finite 1]),
         (''MACD_S'', [Finite 0, Finite 0]),
         (''SMA_200'', [Finite 95, Finite 100])]\<rparr>"

text \<open>Two enriched bars in a downtrend with a bearish MACD.\<close>

definition sell_frame :: dataframe where
  "sell_frame =
     \<lparr>df_index = [1, 2],
      df_columns =
        [(''Close'', [Finite 95, Finite 90]),
         (''RSI_14'', [Finite 58, Finite 55]),
         (''MACD'', [Finite (- 1), Finite (- 1)]),
         (''MACD_S'', [Finite 0, Finite 0]),
         (''SMA_200'', [Finite 100, Finite 100])]\<rparr>"

text \<open>Two bars whose indicators are all undefined, as within the warm-up.\<close>

definition warmup_frame :: dataframe where
  "warmup_frame =
     \<lparr>df_index = [1, 2],
      df_columns =
        [(''Close'', [Finite 100, Finite 101]),
         (''RSI_14'', [NaN, NaN]),
         (''MACD'', [NaN, NaN]),
         (''MACD_S'', [NaN, NaN]),
         (''SMA_200'', [NaN, NaN])]\<rparr>"

text \<open>Raw bars as the data provider returns them: two bars, and one bar.\<close>

definition raw_frame :: dataframe where
  "raw_frame =
     \<lparr>df_index = [1, 2],
      df_columns =
        [(''Open'', [Finite 99, Finite 100]),
         (''High'', [Finite 101, Finite 102]),
         (''Low'', [Finite 98, Finite 99]),
         (''Close'', [Finite 100, Finite 101])]\<rparr>"

definition one_bar_frame :: dataframe where
  "one_bar_frame =
     \<lparr>df_index = [1],
      df_columns =
        [(''Open'', [Finite 99]), (''High'', [Finite 101]),
         (''Low'', [Finite 98]), (''Close'', [Finite 100])]\<rparr>"

definition bot_with :: "dataframe \<Rightarrow> trading_bot" where
  "bot_with df = (init SYMBOL INTERVAL PERIOD)\<lparr>data := Some df\<rparr>"




text \<open>
  Two enriched bars that meet every BUY condition on defined values, except that the
  latest RSI is undefined.
\<close>

definition rsi_gap_frame :: dataframe where
  "rsi_gap_frame =
     \<lparr>df_index = [1, 2],
      df_columns =
        [(''Close'', [Finite 100, Finite 110]),
         (''RSI_14'', [Finite 50, NaN]),
         (''MACD'', [Finite (- 1), Finite 1]),
         (''MACD_S'', [Finite 0, Finite 0]),
         (''SMA_200'', [Finite 95, Finite 100])]\<rparr>"

text \<open>Sixteen bars whose close rises by one at every bar.\<close>

definition rising_frame :: dataframe where
  "rising_frame =
     \<lparr>df_index = [1, 2, 3, 4, 5, 6, 7, 8, 9, 10, 11, 12, 13, 14, 15, 16],
      df_columns =
        [(''Close'',
          [Finite 1, Finite 2, Finite 3, Finite 4, Finite 5, Finite 6, Finite 7, Finite 8,
           Finite 9, Finite 10, Finite 11, Finite 12, Finite 13, Finite 14, Finite 15,
           Finite 16])]\<rparr>"

section \<open>The decision rule on a frame with two rows and the columns it reads\<close>

lemma iloc_Inr_not_empty_index:
  assumes "iloc df i = Inr row"
  shows "df_index df \<noteq> []"
  using assms by (auto simp: iloc_def Let_def split: if_splits)

lemma iloc_Inr_row:
  assumes "iloc df i = Inr row"
  shows "map fst row = map fst (df_columns df)"
  using assms by (auto simp: iloc_def Let_def split: if_splits)

lemma getitem_Inr_contains:
  assumes "getitem row col = Inr v"
  shows "contains row col"
  using assms by (auto simp: getitem_def contains_def split: option.splits)

lemma getitem_Inr_not_Nil:
  assumes "getitem row col = Inr v"
  shows "row \<noteq> []"
  using assms by (auto simp: getitem_def split: option.splits)

lemma generate_signal_decided:
  assumes d: "data self = Some df"
    and l: "iloc df (- 1) = Inr latest"
    and p: "iloc df (- 2) = Inr previous"
    and c: "getitem latest ''Close'' = Inr close"
    and s: "getitem latest ''SMA_200'' = Inr sma_200"
    and m: "getitem latest ''MACD'' = Inr macd"
    and ms: "getitem latest ''MACD_S'' = Inr macd_s"
    and r: "getitem latest ''RSI_14'' = Inr rsi_14"
    and pm: "getitem previous ''MACD'' = Inr prev_macd"
    and pms: "getitem previous ''MACD_S'' = Inr prev_macd_s"
    and pr: "getitem previous ''RSI_14'' = Inr prev_rsi"
  shows "generate_signal self =
     (if py_gt close sma_200 \<and> (py_gt macd macd_s \<and> py_le prev_macd prev_macd_s)
          \<and> py_gt rsi_14 prev_rsi \<and> py_lt rsi_14 (Finite 70)
      then Inr (Tuple3 BUY close buy_reason)
      else if py_lt close sma_200 \<and> py_lt macd macd_s \<and> py_gt rsi_14 (Finite 50)
      then Inr (Tuple3 SELL close sell_reason)
      else Inr (Tuple3 HOLD close hold_reason))"
proof -
  have ne: "\<not> df_empty df"
  proof -
    have "df_index df \<noteq> []" using l by (rule iloc_Inr_not_empty_index)
    moreover have "latest \<noteq> []" using c by (rule getitem_Inr_not_Nil)
    then have "df_columns df \<noteq> []" using iloc_Inr_row [OF l] by auto
    ultimately show ?thesis by (simp add: df_empty_def)
  qed
  have req: "list_all (\<lambda>col. contains latest col) required_cols"
    using getitem_Inr_contains [OF s] getitem_Inr_contains [OF m]
      getitem_Inr_contains [OF ms] getitem_Inr_contains [OF r]
    by (simp add: required_cols_def)
  show ?thesis
    unfolding generate_signal_def
    by (simp add: d ne l p req c s m ms r pm pms pr bind_err_def Let_def)
qed

section \<open>Comparisons\<close>

lemma py_lt_NaN_left: "\<not> py_lt NaN b"
  by (cases b) simp_all

lemma py_lt_NaN_right: "\<not> py_lt a NaN"
  by (cases a) simp_all

lemma py_lt_asym: "py_lt a b \<Longrightarrow> \<not> py_lt b a"
  by (cases a; cases b) simp_all

section \<open>Rows of one frame, absent labels and undefined values\<close>

lemma contains_iff_label: "contains row col \<longleftrightarrow> col \<in> set (map fst row)"
  by (simp add: contains_def map_of_eq_None_iff)

lemma iloc_same_labels:
  assumes "iloc df i = Inr r1" and "iloc df j = Inr r2"
  shows "contains r1 col = contains r2 col"
  using iloc_Inr_row [OF assms(1)] iloc_Inr_row [OF assms(2)]
  by (simp add: contains_iff_label)

lemma contains_getitem:
  assumes "contains row col"
  obtains v where "getitem row col = Inr v"
  using assms by (auto simp: contains_def getitem_def)

lemma generate_signal_undefined:
  assumes "data self = Some df"
    and "iloc df (- 1) = Inr latest"
    and "iloc df (- 2) = Inr previous"
    and "getitem latest ''Close'' = Inr close"
    and "getitem latest ''SMA_200'' = Inr sma_200"
    and "getitem latest ''MACD'' = Inr macd"
    and "getitem latest ''MACD_S'' = Inr macd_s"
    and "getitem latest ''RSI_14'' = Inr rsi_14"
    and "getitem previous ''MACD'' = Inr prev_macd"
    and "getitem previous ''MACD_S'' = Inr prev_macd_s"
    and "getitem previous ''RSI_14'' = Inr prev_rsi"
    and nan: "sma_200 = NaN \<or> macd = NaN \<or> macd_s = NaN \<or> rsi_14 = NaN"
  shows "generate_signal self = Inr (Tuple3 HOLD close hold_reason)"
proof -
  have "\<not> (py_gt close sma_200 \<and> (py_gt macd macd_s \<and> py_le prev_macd prev_macd_s)
          \<and> py_gt rsi_14 prev_rsi \<and> py_lt rsi_14 (Finite 70))"
    using nan by (auto simp: py_gt_def py_lt_NaN_left py_lt_NaN_right)
  moreover
  have "\<not> (py_lt close sma_200 \<and> py_lt macd macd_s \<and> py_gt rsi_14 (Finite 50))"
    using nan by (auto simp: py_gt_def py_lt_NaN_left py_lt_NaN_right)
  ultimately show ?thesis
    by (simp add: generate_signal_decided [OF assms(1-11)])
qed

lemma generate_signal_missing_label:
  assumes "data self = Some df"
    and "iloc df (- 1) = Inr latest"
    and "iloc df (- 2) = Inr previous"
    and "\<not> list_all (\<lambda>col. contains latest col) required_cols"
  shows "generate_signal self = Inr (Tuple2 HOLD None)"
  using assms by (simp add: generate_signal_def bind_err_def)

lemma generate_signal_undefined_row:
  assumes d: "data self = Some df"
    and l: "iloc df (- 1) = Inr latest"
    and p: "iloc df (- 2) = Inr previous"
    and c: "getitem latest ''Close'' = Inr close"
    and req: "list_all (\<lambda>col. contains latest col) required_cols"
    and nan: "\<exists>col \<in> set required_cols. getitem latest col = Inr NaN"
  shows "generate_signal self = Inr (Tuple3 HOLD close hold_reason)"
proof -
  have lc: "contains latest ''SMA_200''" "contains latest ''MACD''"
      "contains latest ''MACD_S''" "contains latest ''RSI_14''"
    using req by (simp_all add: required_cols_def)
  then have pc: "contains previous ''MACD''" "contains previous ''MACD_S''"
      "contains previous ''RSI_14''"
    using iloc_same_labels [OF l p] by simp_all
  obtain sma_200 where s: "getitem latest ''SMA_200'' = Inr sma_200"
    using lc(1) by (rule contains_getitem)
  obtain macd where m: "getitem latest ''MACD'' = Inr macd"
    using lc(2) by (rule contains_getitem)
  obtain macd_s where ms: "getitem latest ''MACD_S'' = Inr macd_s"
    using lc(3) by (rule contains_getitem)
  obtain rsi_14 where r: "getitem latest ''RSI_14'' = Inr rsi_14"
    using lc(4) by (rule contains_getitem)
  obtain prev_macd where pm: "getitem previous ''MACD'' = Inr prev_macd"
    using pc(1) by (rule contains_getitem)
  obtain prev_macd_s where pms: "getitem previous ''MACD_S'' = Inr prev_macd_s"
    using pc(2) by (rule contains_getitem)
  obtain prev_rsi where pr: "getitem previous ''RSI_14'' = Inr prev_rsi"
    using pc(3) by (rule contains_getitem)
  have "sma_200 = NaN \<or> macd = NaN \<or> macd_s = NaN \<or> rsi_14 = NaN"
    using nan s m ms r by (auto simp: required_cols_def)
  then show ?thesis
    by (rule generate_signal_undefined [OF d l p c s m ms r pm pms pr])
qed

section \<open>The rows of the example frames\<close>

lemma buy_frame_latest:
  "iloc buy_frame (- 1) =
     Inr [(''Close'', Finite 110), (''RSI_14'', Finite 60), (''MACD'', Finite 1),
          (''MACD_S'', Finite 0), (''SMA_200'', Finite 100)]"
  by (simp add: iloc_def buy_frame_def cell_def)

lemma buy_frame_previous:
  "iloc buy_frame (- 2) =
     Inr [(''Close'', Finite 100), (''RSI_14'', Finite 50), (''MACD'', Finite (- 1)),
          (''MACD_S'', Finite 0), (''SMA_200'', Finite 95)]"
  by (simp add: iloc_def buy_frame_def cell_def)

lemma sell_frame_latest:
  "iloc sell_frame (- 1) =
     Inr [(''Close'', Finite 90), (''RSI_14'', Finite 55), (''MACD'', Finite (- 1)),
          (''MACD_S'', Finite 0), (''SMA_200'', Finite 100)]"
  by (simp add: iloc_def sell_frame_def cell_def)

lemma sell_frame_previous:
  "iloc sell_frame (- 2) =
     Inr [(''Close'', Finite 95), (''RSI_14'', Finite 58), (''MACD'', Finite (- 1)),
          (''MACD_S'', Finite 0), (''SMA_200'', Finite 100)]"
  by (simp add: iloc_def sell_frame_def cell_def)

lemma warmup_frame_latest:
  "iloc warmup_frame (- 1) =
     Inr [(''Close'', Finite 101), (''RSI_14'', NaN), (''MACD'', NaN),
          (''MACD_S'', NaN), (''SMA_200'', NaN)]"
  by (simp add: iloc_def warmup_frame_def cell_def)

lemma warmup_frame_previous:
  "iloc warmup_frame (- 2) =
     Inr [(''Close'', Finite 100), (''RSI_14'', NaN), (''MACD'', NaN),
          (''MACD_S'', NaN), (''SMA_200'', NaN)]"
  by (simp add: iloc_def warmup_frame_def cell_def)

lemma rsi_gap_frame_latest:
  "iloc rsi_gap_frame (- 1) =
     Inr [(''Close'', Finite 110), (''RSI_14'', NaN), (''MACD'', Finite 1),
          (''MACD_S'', Finite 0), (''SMA_200'', Finite 100)]"
  by (simp add: iloc_def rsi_gap_frame_def cell_def)

lemma rsi_gap_frame_previous:
  "iloc rsi_gap_frame (- 2) =
     Inr [(''Close'', Finite 100), (''RSI_14'', Finite 50), (''MACD'', Finite (- 1)),
          (''MACD_S'', Finite 0), (''SMA_200'', Finite 95)]"
  by (simp add: iloc_def rsi_gap_frame_def cell_def)

section \<open>The decision rule\<close>

text \<open>
  C1: on a frame with at least two rows whose latest row carries \<^verbatim>\<open>Close\<close>,
  \<^verbatim>\<open>SMA_200\<close>, \<^verbatim>\<open>MACD\<close>, \<^verbatim>\<open>MACD_S\<close> and \<^verbatim>\<open>RSI_14\<close> and whose previous row carries
  \<^verbatim>\<open>MACD\<close>, \<^verbatim>\<open>MACD_S\<close> and \<^verbatim>\<open>RSI_14\<close>, \<^verbatim>\<open>generate_signal\<close> returns BUY exactly when
  the latest close is above the latest \<^verbatim>\<open>SMA_200\<close>, the MACD line is above its signal
  line at the latest row and was at or below it at the previous row, the latest RSI
  is above the previous RSI, and the latest RSI is below 70. The values need not be
  defined: on an undefined one the comparisons fail and the equivalence still holds.
\<close>

theorem generate_signal_buy_iff:
  assumes "data self = Some df"
    and "iloc df (- 1) = Inr latest"
    and "iloc df (- 2) = Inr previous"
    and "getitem latest ''Close'' = Inr close"
    and "getitem latest ''SMA_200'' = Inr sma_200"
    and "getitem latest ''MACD'' = Inr macd"
    and "getitem latest ''MACD_S'' = Inr macd_s"
    and "getitem latest ''RSI_14'' = Inr rsi_14"
    and "getitem previous ''MACD'' = Inr prev_macd"
    and "getitem previous ''MACD_S'' = Inr prev_macd_s"
    and "getitem previous ''RSI_14'' = Inr prev_rsi"
  shows "signal_of (generate_signal self) = Some BUY \<longleftrightarrow>
     py_gt close sma_200
     \<and> (py_gt macd macd_s \<and> py_le prev_macd prev_macd_s)
     \<and> py_gt rsi_14 prev_rsi
     \<and> py_lt rsi_14 (Finite 70)"
  by (simp add: generate_signal_decided [OF assms])

theorem generate_signal_buy_iff_witness:
  "iloc buy_frame (- 1) =
     Inr [(''Close'', Finite 110), (''RSI_14'', Finite 60), (''MACD'', Finite 1),
          (''MACD_S'', Finite 0), (''SMA_200'', Finite 100)]
   \<and> iloc buy_frame (- 2) =
     Inr [(''Close'', Finite 100), (''RSI_14'', Finite 50), (''MACD'', Finite (- 1)),
          (''MACD_S'', Finite 0), (''SMA_200'', Finite 95)]
   \<and> signal_of (generate_signal (bot_with buy_frame)) = Some BUY"
proof -
  have d: "data (bot_with buy_frame) = Some buy_frame"
    by (simp add: bot_with_def)
  have "signal_of (generate_signal (bot_with buy_frame)) = Some BUY \<longleftrightarrow>
     py_gt (Finite 110) (Finite 100)
     \<and> (py_gt (Finite 1) (Finite 0) \<and> py_le (Finite (- 1)) (Finite 0))
     \<and> py_gt (Finite 60) (Finite 50)
     \<and> py_lt (Finite 60) (Finite 70)"
    by (rule generate_signal_buy_iff [OF d buy_frame_latest buy_frame_previous])
      (simp_all add: getitem_def)
  then have "signal_of (generate_signal (bot_with buy_frame)) = Some BUY"
    by (simp add: py_gt_def py_le_def)
  with buy_frame_latest buy_frame_previous show ?thesis by simp
qed

text \<open>
  C2: on the same frames, \<^verbatim>\<open>generate_signal\<close> returns SELL exactly when the BUY
  conditions do not all hold and the latest close is below the latest \<^verbatim>\<open>SMA_200\<close>,
  the latest MACD line is below its signal line and the latest RSI is above 50 (the
  previous row plays no part in SELL); it returns HOLD exactly when neither set of
  conditions holds.
\<close>

theorem generate_signal_sell_iff_else_hold:
  assumes "data self = Some df"
    and "iloc df (- 1) = Inr latest"
    and "iloc df (- 2) = Inr previous"
    and "getitem latest ''Close'' = Inr close"
    and "getitem latest ''SMA_200'' = Inr sma_200"
    and "getitem latest ''MACD'' = Inr macd"
    and "getitem latest ''MACD_S'' = Inr macd_s"
    and "getitem latest ''RSI_14'' = Inr rsi_14"
    and "getitem previous ''MACD'' = Inr prev_macd"
    and "getitem previous ''MACD_S'' = Inr prev_macd_s"
    and "getitem previous ''RSI_14'' = Inr prev_rsi"
  shows "(signal_of (generate_signal self) = Some SELL \<longleftrightarrow>
       \<not> (py_gt close sma_200
          \<and> (py_gt macd macd_s \<and> py_le prev_macd prev_macd_s)
          \<and> py_gt rsi_14 prev_rsi
          \<and> py_lt rsi_14 (Finite 70))
       \<and> py_lt close sma_200 \<and> py_lt macd macd_s \<and> py_gt rsi_14 (Finite 50))
     \<and> (signal_of (generate_signal self) = Some HOLD \<longleftrightarrow>
       \<not> (py_gt close sma_200
          \<and> (py_gt macd macd_s \<and> py_le prev_macd prev_macd_s)
          \<and> py_gt rsi_14 prev_rsi
          \<and> py_lt rsi_14 (Finite 70))
       \<and> \<not> (py_lt close sma_200 \<and> py_lt macd macd_s \<and> py_gt rsi_14 (Finite 50)))"
  by (simp add: generate_signal_decided [OF assms])

theorem generate_signal_sell_iff_else_hold_witness:
  "iloc sell_frame (- 1) =
     Inr [(''Close'', Finite 90), (''RSI_14'', Finite 55), (''MACD'', Finite (- 1)),
          (''MACD_S'', Finite 0), (''SMA_200'', Finite 100)]
   \<and> iloc sell_frame (- 2) =
     Inr [(''Close'', Finite 95), (''RSI_14'', Finite 58), (''MACD'', Finite (- 1)),
          (''MACD_S'', Finite 0), (''SMA_200'', Finite 100)]
   \<and> signal_of (generate_signal (bot_with sell_frame)) = Some SELL"
proof -
  have d: "data (bot_with sell_frame) = Some sell_frame"
    by (simp add: bot_with_def)
  note t = generate_signal_sell_iff_else_hold [OF d sell_frame_latest sell_frame_previous,
      of "Finite 90" "Finite 100" "Finite (- 1)" "Finite 0" "Finite 55"
         "Finite (- 1)" "Finite 0" "Finite 58"]
  have "signal_of (generate_signal (bot_with sell_frame)) = Some SELL"
    using t by (simp add: getitem_def py_gt_def py_le_def)
  with sell_frame_latest sell_frame_previous show ?thesis by simp
qed

text \<open>
  C3: whenever the BUY conditions hold, \<^verbatim>\<open>generate_signal\<close> returns BUY, whatever
  the SELL conditions are: the BUY branch is tested first. The SELL conditions cannot
  in fact hold together with them, since the close would have to be both above and
  below \<^verbatim>\<open>SMA_200\<close>.
\<close>

theorem buy_has_priority:
  assumes "data self = Some df"
    and "iloc df (- 1) = Inr latest"
    and "iloc df (- 2) = Inr previous"
    and "getitem latest ''Close'' = Inr close"
    and "getitem latest ''SMA_200'' = Inr sma_200"
    and "getitem latest ''MACD'' = Inr macd"
    and "getitem latest ''MACD_S'' = Inr macd_s"
    and "getitem latest ''RSI_14'' = Inr rsi_14"
    and "getitem previous ''MACD'' = Inr prev_macd"
    and "getitem previous ''MACD_S'' = Inr prev_macd_s"
    and "getitem previous ''RSI_14'' = Inr prev_rsi"
    and buy: "py_gt close sma_200
       \<and> (py_gt macd macd_s \<and> py_le prev_macd prev_macd_s)
       \<and> py_gt rsi_14 prev_rsi
       \<and> py_lt rsi_14 (Finite 70)"
  shows "generate_signal self = Inr (Tuple3 BUY close buy_reason)
     \<and> \<not> (py_lt close sma_200 \<and> py_lt macd macd_s \<and> py_gt rsi_14 (Finite 50))"
proof -
  have "generate_signal self = Inr (Tuple3 BUY close buy_reason)"
    using buy by (simp add: generate_signal_decided [OF assms(1-11)])
  moreover have "\<not> py_lt close sma_200"
    using buy py_lt_asym [of sma_200 close] by (auto simp: py_gt_def)
  ultimately show ?thesis by simp
qed

theorem buy_has_priority_witness:
  "py_gt (Finite 110) (Finite 100)
   \<and> (py_gt (Finite 1) (Finite 0) \<and> py_le (Finite (- 1)) (Finite 0))
   \<and> py_gt (Finite 60) (Finite 50)
   \<and> py_lt (Finite 60) (Finite 70)
   \<and> generate_signal (bot_with buy_frame) = Inr (Tuple3 BUY (Finite 110) buy_reason)"
proof -
  have d: "data (bot_with buy_frame) = Some buy_frame"
    by (simp add: bot_with_def)
  have b: "py_gt (Finite 110) (Finite 100)
     \<and> (py_gt (Finite 1) (Finite 0) \<and> py_le (Finite (- 1)) (Finite 0))
     \<and> py_gt (Finite 60) (Finite 50)
     \<and> py_lt (Finite 60) (Finite 70)"
    by (simp add: py_gt_def py_le_def)
  have "generate_signal (bot_with buy_frame) = Inr (Tuple3 BUY (Finite 110) buy_reason)
     \<and> \<not> (py_lt (Finite 110) (Finite 100) \<and> py_lt (Finite 1) (Finite 0)
           \<and> py_gt (Finite 60) (Finite 50))"
    by (rule buy_has_priority [OF d buy_frame_latest buy_frame_previous _ _ _ _ _ _ _ _ b])
      (simp_all add: getitem_def)
  with b show ?thesis by simp
qed

text \<open>
  C4, as amended: on a frame with at least two rows and a \<^verbatim>\<open>Close\<close> column whose
  latest row lacks one of \<^verbatim>\<open>RSI_14\<close>, \<^verbatim>\<open>MACD\<close>, \<^verbatim>\<open>MACD_S\<close>, \<^verbatim>\<open>SMA_200\<close> (the label is
  absent, or its value is NaN), \<^verbatim>\<open>generate_signal\<close> raises nothing and its signal is
  HOLD. The reason is never "insufficient indicator history": when the four labels are
  present, the result is HOLD at the latest close with the reason of every other HOLD.
\<close>

theorem missing_indicator_holds:
  assumes d: "data self = Some df"
    and l: "iloc df (- 1) = Inr latest"
    and p: "iloc df (- 2) = Inr previous"
    and c: "getitem latest ''Close'' = Inr close"
    and missing: "\<exists>col \<in> set required_cols.
        \<not> contains latest col \<or> getitem latest col = Inr NaN"
  shows "signal_of (generate_signal self) = Some HOLD
     \<and> reason_of (generate_signal self) \<noteq> Some ''insufficient indicator history''
     \<and> (list_all (\<lambda>col. contains latest col) required_cols \<longrightarrow>
          generate_signal self = Inr (Tuple3 HOLD close hold_reason))"
proof (cases "list_all (\<lambda>col. contains latest col) required_cols")
  case False
  then show ?thesis
    by (simp add: generate_signal_missing_label [OF d l p])
next
  case True
  have nan: "\<exists>col \<in> set required_cols. getitem latest col = Inr NaN"
    using missing True by (auto simp: list_all_iff)
  have "generate_signal self = Inr (Tuple3 HOLD close hold_reason)"
    by (rule generate_signal_undefined_row [OF d l p c True nan])
  then show ?thesis
    by (simp add: hold_reason_def)
qed

theorem missing_indicator_holds_witness:
  "iloc raw_frame (- 1) =
     Inr [(''Open'', Finite 100), (''High'', Finite 102), (''Low'', Finite 99),
          (''Close'', Finite 101)]
   \<and> \<not> contains [(''Open'', Finite 100), (''High'', Finite 102), (''Low'', Finite 99),
          (''Close'', Finite 101)] ''RSI_14''
   \<and> signal_of (generate_signal (bot_with raw_frame)) = Some HOLD
   \<and> reason_of (generate_signal (bot_with raw_frame)) \<noteq> Some ''insufficient indicator history''"
proof -
  have d: "data (bot_with raw_frame) = Some raw_frame"
    by (simp add: bot_with_def)
  have l: "iloc raw_frame (- 1) =
     Inr [(''Open'', Finite 100), (''High'', Finite 102), (''Low'', Finite 99),
          (''Close'', Finite 101)]"
    by (simp add: iloc_def raw_frame_def cell_def)
  have p: "iloc raw_frame (- 2) =
     Inr [(''Open'', Finite 99), (''High'', Finite 101), (''Low'', Finite 98),
          (''Close'', Finite 100)]"
    by (simp add: iloc_def raw_frame_def cell_def)
  have c: "getitem [(''Open'', Finite 100), (''High'', Finite 102), (''Low'', Finite 99),
          (''Close'', Finite 101)] ''Close'' = Inr (Finite 101)"
    by (simp add: getitem_def)
  have n: "\<not> contains [(''Open'', Finite 100), (''High'', Finite 102), (''Low'', Finite 99),
          (''Close'', Finite 101)] ''RSI_14''"
    by (simp add: contains_def)
  then have missing: "\<exists>col \<in> set required_cols.
      \<not> contains [(''Open'', Finite 100), (''High'', Finite 102), (''Low'', Finite 99),
          (''Close'', Finite 101)] col
      \<or> getitem [(''Open'', Finite 100), (''High'', Finite 102), (''Low'', Finite 99),
          (''Close'', Finite 101)] col = Inr NaN"
    by (simp add: required_cols_def)
  from missing_indicator_holds [OF d l p c missing] l n show ?thesis
    by simp
qed

text \<open>
  The claim C4 as it was stated fails on two bars within the warm-up, all four
  indicators undefined: the reason returned is the default one.
\<close>

theorem insufficient_history_reason_counterexample:
  "iloc warmup_frame (- 1) =
     Inr [(''Close'', Finite 101), (''RSI_14'', NaN), (''MACD'', NaN),
          (''MACD_S'', NaN), (''SMA_200'', NaN)]
   \<and> generate_signal (bot_with warmup_frame) = Inr (Tuple3 HOLD (Finite 101) hold_reason)
   \<and> reason_of (generate_signal (bot_with warmup_frame)) \<noteq>
       Some ''insufficient indicator history''"
proof -
  have d: "data (bot_with warmup_frame) = Some warmup_frame"
    by (simp add: bot_with_def)
  have "generate_signal (bot_with warmup_frame) = Inr (Tuple3 HOLD (Finite 101) hold_reason)"
    by (rule generate_signal_undefined
          [OF d warmup_frame_latest warmup_frame_previous _ _ _ _ _ _ _ _ disjI1 [OF refl]])
      (simp_all add: getitem_def)
  with warmup_frame_latest show ?thesis
    by (simp add: hold_reason_def)
qed

text \<open>
  C9, as amended: when the latest row carries the four indicators and one of
  \<^verbatim>\<open>SMA_200\<close>, \<^verbatim>\<open>MACD\<close>, \<^verbatim>\<open>MACD_S\<close>, \<^verbatim>\<open>RSI_14\<close> is NaN there, every comparison of the
  two guards that reads the NaN value is false. Each guard holds such a comparison, so
  the BUY guard is false and the SELL guard is false, and \<^verbatim>\<open>generate_signal\<close> returns
  HOLD, never BUY or SELL.
\<close>

theorem undefined_latest_never_trades:
  assumes "data self = Some df"
    and "iloc df (- 1) = Inr latest"
    and "iloc df (- 2) = Inr previous"
    and "getitem latest ''Close'' = Inr close"
    and "getitem latest ''SMA_200'' = Inr sma_200"
    and "getitem latest ''MACD'' = Inr macd"
    and "getitem latest ''MACD_S'' = Inr macd_s"
    and "getitem latest ''RSI_14'' = Inr rsi_14"
    and "getitem previous ''MACD'' = Inr prev_macd"
    and "getitem previous ''MACD_S'' = Inr prev_macd_s"
    and "getitem previous ''RSI_14'' = Inr prev_rsi"
    and nan: "sma_200 = NaN \<or> macd = NaN \<or> macd_s = NaN \<or> rsi_14 = NaN"
  shows "(sma_200 = NaN \<longrightarrow> \<not> py_gt close sma_200 \<and> \<not> py_lt close sma_200)
     \<and> (macd = NaN \<or> macd_s = NaN \<longrightarrow> \<not> py_gt macd macd_s \<and> \<not> py_lt macd macd_s)
     \<and> (rsi_14 = NaN \<longrightarrow>
          \<not> py_gt rsi_14 prev_rsi \<and> \<not> py_lt rsi_14 (Finite 70) \<and> \<not> py_gt rsi_14 (Finite 50))
     \<and> \<not> (py_gt close sma_200
          \<and> (py_gt macd macd_s \<and> py_le prev_macd prev_macd_s)
          \<and> py_gt rsi_14 prev_rsi
          \<and> py_lt rsi_14 (Finite 70))
     \<and> \<not> (py_lt close sma_200 \<and> py_lt macd macd_s \<and> py_gt rsi_14 (Finite 50))
     \<and> generate_signal self = Inr (Tuple3 HOLD close hold_reason)"
proof -
  have t: "sma_200 = NaN \<longrightarrow> \<not> py_gt close sma_200 \<and> \<not> py_lt close sma_200"
    by (simp add: py_gt_def py_lt_NaN_left py_lt_NaN_right)
  have m: "macd = NaN \<or> macd_s = NaN \<longrightarrow> \<not> py_gt macd macd_s \<and> \<not> py_lt macd macd_s"
    by (auto simp: py_gt_def py_lt_NaN_left py_lt_NaN_right)
  have r: "rsi_14 = NaN \<longrightarrow>
      \<not> py_gt rsi_14 prev_rsi \<and> \<not> py_lt rsi_14 (Finite 70) \<and> \<not> py_gt rsi_14 (Finite 50)"
    by (simp add: py_gt_def py_lt_NaN_left py_lt_NaN_right)
  have b: "\<not> (py_gt close sma_200
          \<and> (py_gt macd macd_s \<and> py_le prev_macd prev_macd_s)
          \<and> py_gt rsi_14 prev_rsi
          \<and> py_lt rsi_14 (Finite 70))"
    using nan t m r by blast
  have s: "\<not> (py_lt close sma_200 \<and> py_lt macd macd_s \<and> py_gt rsi_14 (Finite 50))"
    using nan t m r by blast
  have "generate_signal self = Inr (Tuple3 HOLD close hold_reason)"
    using b s by (simp add: generate_signal_decided [OF assms(1-11)])
  with t m r b s show ?thesis by blast
qed

theorem undefined_latest_never_trades_witness:
  "iloc rsi_gap_frame (- 1) =
     Inr [(''Close'', Finite 110), (''RSI_14'', NaN), (''MACD'', Finite 1),
          (''MACD_S'', Finite 0), (''SMA_200'', Finite 100)]
   \<and> \<not> py_gt NaN (Finite 50) \<and> \<not> py_lt NaN (Finite 70)
   \<and> generate_signal (bot_with rsi_gap_frame) = Inr (Tuple3 HOLD (Finite 110) hold_reason)"
proof -
  have d: "data (bot_with rsi_gap_frame) = Some rsi_gap_frame"
    by (simp add: bot_with_def)
  note t = undefined_latest_never_trades
    [OF d rsi_gap_frame_latest rsi_gap_frame_previous,
      of "Finite 110" "Finite 100" "Finite 1" "Finite 0" NaN "Finite (- 1)" "Finite 0" "Finite 50"]
  have "\<not> py_gt NaN (Finite 50) \<and> \<not> py_lt NaN (Finite 70)
     \<and> generate_signal (bot_with rsi_gap_frame) = Inr (Tuple3 HOLD (Finite 110) hold_reason)"
    using t by (simp add: getitem_def)
  with rsi_gap_frame_latest show ?thesis by simp
qed

text \<open>
  The claim C9 as it was stated, that every comparison of both guards is false, fails
  on two bars where only the latest RSI is undefined: the trend comparison and both
  comparisons of the crossover are true there. The result is HOLD all the same.
\<close>

theorem every_comparison_false_counterexample:
  "iloc rsi_gap_frame (- 1) =
     Inr [(''Close'', Finite 110), (''RSI_14'', NaN), (''MACD'', Finite 1),
          (''MACD_S'', Finite 0), (''SMA_200'', Finite 100)]
   \<and> iloc rsi_gap_frame (- 2) =
     Inr [(''Close'', Finite 100), (''RSI_14'', Finite 50), (''MACD'', Finite (- 1)),
          (''MACD_S'', Finite 0), (''SMA_200'', Finite 95)]
   \<and> py_gt (Finite 110) (Finite 100)
   \<and> py_gt (Finite 1) (Finite 0)
   \<and> py_le (Finite (- 1)) (Finite 0)
   \<and> generate_signal (bot_with rsi_gap_frame) = Inr (Tuple3 HOLD (Finite 110) hold_reason)"
proof -
  have d: "data (bot_with rsi_gap_frame) = Some rsi_gap_frame"
    by (simp add: bot_with_def)
  have "generate_signal (bot_with rsi_gap_frame) = Inr (Tuple3 HOLD (Finite 110) hold_reason)"
    by (rule generate_signal_undefined
          [OF d rsi_gap_frame_latest rsi_gap_frame_previous _ _ _ _ _ _ _ _
            disjI2 [OF disjI2 [OF disjI2 [OF refl]]]])
      (simp_all add: getitem_def)
  with rsi_gap_frame_latest rsi_gap_frame_previous show ?thesis
    by (simp add: py_gt_def py_le_def)
qed

section \<open>Appending and renaming columns\<close>


lemma update_length: "length al \<le> length (AList.update name v al)"
  by (induction al) auto

lemma append_cols_index: "df_index (append_cols cols df) = df_index df"
  by (induction cols df rule: append_cols.induct) simp_all



lemma append_cols_length:
  "length (df_columns df) \<le> length (df_columns (append_cols cols df))"
proof (induction cols df rule: append_cols.induct)
  case (1 df)
  then show ?case by simp
next
  case (2 name vs rest df)
  have "length (df_columns df) \<le> length (AList.update name vs (df_columns df))"
    by (rule update_length)
  then show ?case using 2 by simp
qed

lemma rename_columns_index: "df_index (rename_columns m df) = df_index df"
  by (simp add: rename_columns_def)

lemma rename_columns_length: "length (df_columns (rename_columns m df)) = length (df_columns df)"
  by (simp add: rename_columns_def)

lemma rename_label_macd:
  "rename_label macd_renames c =
     (if c = ''MACD_12_26_9'' then ''MACD''
      else if c = ''MACDH_12_26_9'' then ''MACD_H''
      else if c = ''MACDS_12_26_9'' then ''MACD_S'' else c)"
  by (simp add: rename_label_def macd_renames_def)

lemma rename_columns_labels:
  "set (map fst (df_columns (rename_columns m df))) = rename_label m ` set (map fst (df_columns df))"
  by (force simp: rename_columns_def)

lemma rename_columns_filter:
  assumes keep: "\<And>c. P c \<Longrightarrow> rename_label m c = c"
    and out: "\<And>c. \<not> P c \<Longrightarrow> \<not> P (rename_label m c)"
  shows "filter (\<lambda>(c, vs). P c) (df_columns (rename_columns m df)) =
     filter (\<lambda>(c, vs). P c) (df_columns df)"
proof -
  have "filter (\<lambda>(c, vs). P c) (map (\<lambda>(c, vs). (rename_label m c, vs)) al) =
      filter (\<lambda>(c, vs). P c) al" for al :: "(string \<times> column) list"
    using keep out by (induction al) auto
  then show ?thesis by (simp add: rename_columns_def)
qed

lemma map_of_filter_label:
  assumes "P c"
  shows "map_of (filter (\<lambda>(k, v). P k) al) c = map_of al c"
  using assms by (induction al) auto


section \<open>What the indicator engine does to a frame\<close>

lemma calculate_indicators_steps:
  assumes "data self = Some df" and "\<not> df_empty df"
    and "calculate_indicators ta self = Inr self'"
  obtains r m s50 s200 where
    "ta_rsi ta df = Inr r"
    and "ta_macd ta (append_cols r df) = Inr m"
    and "ta_sma ta 50 (append_cols m (append_cols r df)) = Inr s50"
    and "ta_sma ta 200 (append_cols s50 (append_cols m (append_cols r df))) = Inr s200"
    and "self' = self\<lparr>data := Some (rename_columns macd_renames
        (append_cols s200 (append_cols s50 (append_cols m (append_cols r df)))))\<rparr>"
  using assms
  by (auto simp: calculate_indicators_def bind_err_def Let_def split: sum.splits)


lemma enriched_index:
  "df_index (rename_columns macd_renames
        (append_cols s200 (append_cols s50 (append_cols m (append_cols r df))))) = df_index df"
  by (simp add: rename_columns_index append_cols_index)

lemma enriched_length:
  "length (df_columns df) \<le> length (df_columns (rename_columns macd_renames
        (append_cols s200 (append_cols s50 (append_cols m (append_cols r df))))))"
  using append_cols_length [of df r]
    append_cols_length [of "append_cols r df" m]
    append_cols_length [of "append_cols m (append_cols r df)" s50]
    append_cols_length [of "append_cols s50 (append_cols m (append_cols r df))" s200]
  by (simp add: rename_columns_length)

lemma calculate_indicators_keeps_rows:
  assumes "data self = Some df" and "\<not> df_empty df"
    and "calculate_indicators ta self = Inr self'"
  shows "\<exists>df'. data self' = Some df' \<and> df_index df' = df_index df \<and> \<not> df_empty df'"
proof -
  obtain r m s50 s200 where s: "self' = self\<lparr>data := Some (rename_columns macd_renames
        (append_cols s200 (append_cols s50 (append_cols m (append_cols r df)))))\<rparr>"
    by (rule calculate_indicators_steps [OF assms])
  let ?df' = "rename_columns macd_renames
        (append_cols s200 (append_cols s50 (append_cols m (append_cols r df))))"
  have i: "df_index ?df' = df_index df" by (rule enriched_index)
  have "df_columns df \<noteq> []" using assms(2) by (simp add: df_empty_def)
  then have "df_columns ?df' \<noteq> []"
    using enriched_length [of df s200 s50 m r] by auto
  then have "\<not> df_empty ?df'"
    using assms(2) i by (simp add: df_empty_def)
  then show ?thesis using s i by simp
qed




section \<open>The paths of the decision rule\<close>

lemma iloc_last:
  assumes "df_index df \<noteq> []"
  shows "\<exists>row. iloc df (- 1) = Inr row"
  using assms by (cases "df_index df") (auto simp: iloc_def Let_def)

lemma iloc_previous_short:
  assumes "length (df_index df) < 2"
  shows "iloc df (- 2) = Inl IndexError"
  using assms by (simp add: iloc_def Let_def)

lemma iloc_previous:
  assumes "2 \<le> length (df_index df)"
  shows "\<exists>row. iloc df (- 2) = Inr row"
  using assms by (simp add: iloc_def Let_def)

lemma generate_signal_short:
  assumes "data self = Some df" and "\<not> df_empty df" and "length (df_index df) < 2"
  shows "generate_signal self = Inl IndexError"
proof -
  have "df_index df \<noteq> []" using assms(2) by (simp add: df_empty_def)
  then obtain latest where "iloc df (- 1) = Inr latest"
    using iloc_last by blast
  then show ?thesis
    using assms by (simp add: generate_signal_def bind_err_def iloc_previous_short)
qed

lemma generate_signal_no_close:
  assumes "data self = Some df"
    and "iloc df (- 1) = Inr latest"
    and "iloc df (- 2) = Inr previous"
    and "list_all (\<lambda>col. contains latest col) required_cols"
    and "getitem latest ''Close'' = Inl e"
  shows "generate_signal self = Inl e"
proof -
  have "\<not> df_empty df"
  proof -
    have "df_index df \<noteq> []" using assms(2) by (rule iloc_Inr_not_empty_index)
    moreover have "contains latest ''RSI_14''" using assms(4) by (simp add: required_cols_def)
    then have "latest \<noteq> []" by (auto simp: contains_def)
    then have "df_columns df \<noteq> []" using iloc_Inr_row [OF assms(2)] by auto
    ultimately show ?thesis by (simp add: df_empty_def)
  qed
  then show ?thesis
    using assms by (simp add: generate_signal_def bind_err_def)
qed

lemma generate_signal_full_row:
  assumes d: "data self = Some df"
    and l: "iloc df (- 1) = Inr latest"
    and p: "iloc df (- 2) = Inr previous"
    and req: "list_all (\<lambda>col. contains latest col) required_cols"
  shows "(\<exists>e. generate_signal self = Inl e)
     \<or> (\<exists>sg price reason. generate_signal self = Inr (Tuple3 sg price reason))"
proof (cases "getitem latest ''Close''")
  case (Inl e)
  then show ?thesis
    using generate_signal_no_close [OF d l p req] by simp
next
  case (Inr close)
  have lc: "contains latest ''SMA_200''" "contains latest ''MACD''"
      "contains latest ''MACD_S''" "contains latest ''RSI_14''"
    using req by (simp_all add: required_cols_def)
  then have pc: "contains previous ''MACD''" "contains previous ''MACD_S''"
      "contains previous ''RSI_14''"
    using iloc_same_labels [OF l p] by simp_all
  obtain sma_200 where s: "getitem latest ''SMA_200'' = Inr sma_200"
    using lc(1) by (rule contains_getitem)
  obtain macd where m: "getitem latest ''MACD'' = Inr macd"
    using lc(2) by (rule contains_getitem)
  obtain macd_s where ms: "getitem latest ''MACD_S'' = Inr macd_s"
    using lc(3) by (rule contains_getitem)
  obtain rsi_14 where r: "getitem latest ''RSI_14'' = Inr rsi_14"
    using lc(4) by (rule contains_getitem)
  obtain prev_macd where pm: "getitem previous ''MACD'' = Inr prev_macd"
    using pc(1) by (rule contains_getitem)
  obtain prev_macd_s where pms: "getitem previous ''MACD_S'' = Inr prev_macd_s"
    using pc(2) by (rule contains_getitem)
  obtain prev_rsi where pr: "getitem previous ''RSI_14'' = Inr prev_rsi"
    using pc(3) by (rule contains_getitem)
  show ?thesis
    by (simp add: generate_signal_decided [OF d l p Inr s m ms r pm pms pr])
qed

lemma two_tuple_path_frame:
  assumes "data self = Some df" and "\<not> df_empty df"
    and "iloc df (- 1) = Inr latest"
  shows "two_tuple_path self \<longleftrightarrow>
     2 \<le> length (df_index df) \<and> \<not> list_all (\<lambda>col. contains latest col) required_cols"
proof -
  have "contains latest col \<longleftrightarrow> col \<in> set (map fst (df_columns df))" for col
    using iloc_Inr_row [OF assms(3)] by (simp add: contains_iff_label)
  then show ?thesis
    using assms(1,2) by (simp add: two_tuple_path_def)
qed

lemma generate_signal_pair_iff:
  "generate_signal self = Inr (Tuple2 s p) \<longleftrightarrow> s = HOLD \<and> p = None \<and> two_tuple_path self"
proof (cases "data self")
  case None
  then show ?thesis
    by (auto simp: generate_signal_def two_tuple_path_def)
next
  case (Some df)
  show ?thesis
  proof (cases "df_empty df")
    case True
    then show ?thesis
      using Some by (auto simp: generate_signal_def two_tuple_path_def)
  next
    case False
    then have "df_index df \<noteq> []" by (simp add: df_empty_def)
    then obtain latest where l: "iloc df (- 1) = Inr latest"
      using iloc_last by blast
    note tt = two_tuple_path_frame [OF Some False l]
    show ?thesis
    proof (cases "2 \<le> length (df_index df)")
      case short: False
      then have "generate_signal self = Inl IndexError"
        using generate_signal_short [OF Some False] by simp
      then show ?thesis using tt short by simp
    next
      case True
      then obtain previous where p: "iloc df (- 2) = Inr previous"
        using iloc_previous by blast
      show ?thesis
      proof (cases "list_all (\<lambda>col. contains latest col) required_cols")
        case req: True
        then show ?thesis
          using generate_signal_full_row [OF Some l p req] tt by auto
      next
        case missing: False
        then show ?thesis
          using generate_signal_missing_label [OF Some l p missing] tt True by auto
      qed
    qed
  qed
qed

section \<open>How a run ends\<close>

lemma fetch_data_Some:
  assumes "data (fetch_data history self) = Some df"
  shows "history = Inr df \<and> \<not> df_empty df \<and> map_of (df_columns df) ''Close'' \<noteq> None"
  using assms by (auto simp: fetch_data_def split: sum.splits if_splits option.splits)

lemma run_no_data:
  assumes "data (fetch_data history (init SYMBOL INTERVAL PERIOD)) = None"
  shows "run_trading_strategy ta history = Exited"
  using assms by (simp add: run_trading_strategy_def Let_def)

lemma run_library_raises:
  assumes "data (fetch_data history (init SYMBOL INTERVAL PERIOD)) = Some df"
    and "calculate_indicators ta (fetch_data history (init SYMBOL INTERVAL PERIOD)) = Inl e"
  shows "run_trading_strategy ta history = Raised e"
  using assms fetch_data_Some [OF assms(1)]
  by (simp add: run_trading_strategy_def Let_def)

lemma run_signal_raises:
  assumes "data (fetch_data history (init SYMBOL INTERVAL PERIOD)) = Some df"
    and "calculate_indicators ta (fetch_data history (init SYMBOL INTERVAL PERIOD)) = Inr bot'"
    and "generate_signal bot' = Inl e"
  shows "run_trading_strategy ta history = Raised e"
  using assms fetch_data_Some [OF assms(1)]
  by (simp add: run_trading_strategy_def Let_def)

lemma run_pair_raises:
  assumes "data (fetch_data history (init SYMBOL INTERVAL PERIOD)) = Some df"
    and "calculate_indicators ta (fetch_data history (init SYMBOL INTERVAL PERIOD)) = Inr bot'"
    and "generate_signal bot' = Inr (Tuple2 s p)"
  shows "run_trading_strategy ta history = Raised ValueError"
  using assms fetch_data_Some [OF assms(1)]
  by (simp add: run_trading_strategy_def Let_def)

section \<open>Short series and the pair result\<close>

text \<open>
  C5: a run whose fetched series has fewer than two bars reports no decision. On an
  empty series it exits after the message of the data failure; on one bar it ends
  with an exception, the IndexError of the read of the previous row (or the
  library's own, if the library raises first).
\<close>

theorem short_series_no_decision:
  assumes short: "length (df_index df) < 2"
  shows "(df_empty df \<longrightarrow> run_trading_strategy ta (Inr df) = Exited)
     \<and> (run_trading_strategy ta (Inr df) = Exited
        \<or> run_trading_strategy ta (Inr df) = Raised IndexError
        \<or> (\<exists>e. calculate_indicators ta (fetch_data (Inr df) (init SYMBOL INTERVAL PERIOD)) = Inl e
              \<and> run_trading_strategy ta (Inr df) = Raised e))"
proof -
  let ?bot = "fetch_data (Inr df) (init SYMBOL INTERVAL PERIOD)"
  have e: "run_trading_strategy ta (Inr df) = Exited" if "df_empty df"
    using that by (intro run_no_data) (simp add: fetch_data_def)
  have "run_trading_strategy ta (Inr df) = Exited
        \<or> run_trading_strategy ta (Inr df) = Raised IndexError
        \<or> (\<exists>e. calculate_indicators ta ?bot = Inl e
              \<and> run_trading_strategy ta (Inr df) = Raised e)"
  proof (cases "data ?bot")
    case None
    then show ?thesis by (simp add: run_no_data)
  next
    case (Some df0)
    then have df0: "df0 = df" and ne: "\<not> df_empty df"
      using fetch_data_Some [OF Some] by simp_all
    show ?thesis
    proof (cases "calculate_indicators ta ?bot")
      case (Inl e)
      then show ?thesis using run_library_raises [OF Some Inl] by simp
    next
      case (Inr bot')
      obtain df' where d': "data bot' = Some df'" and i: "df_index df' = df_index df"
        and ne': "\<not> df_empty df'"
        using calculate_indicators_keeps_rows [OF Some [unfolded df0] ne Inr] by blast
      have "generate_signal bot' = Inl IndexError"
        using generate_signal_short [OF d' ne'] short i by simp
      then show ?thesis using run_signal_raises [OF Some Inr] by simp
    qed
  qed
  with e show ?thesis by simp
qed

theorem short_series_no_decision_witness:
  "length (df_index one_bar_frame) < 2
   \<and> calculate_indicators declining_ta (fetch_data (Inr one_bar_frame) (init SYMBOL INTERVAL PERIOD))
       = Inr (bot_with one_bar_frame)
   \<and> run_trading_strategy declining_ta (Inr one_bar_frame) = Raised IndexError"
proof -
  have s: "length (df_index one_bar_frame) < 2"
    by (simp add: one_bar_frame_def)
  have f: "fetch_data (Inr one_bar_frame) (init SYMBOL INTERVAL PERIOD) = bot_with one_bar_frame"
    by (simp add: fetch_data_def one_bar_frame_def df_empty_def bot_with_def)
  have c: "calculate_indicators declining_ta (bot_with one_bar_frame) = Inr (bot_with one_bar_frame)"
    by (simp add: calculate_indicators_def declining_ta_def bot_with_def init_def one_bar_frame_def
        df_empty_def bind_err_def rename_columns_def rename_label_def macd_renames_def)
  have d: "data (fetch_data (Inr one_bar_frame) (init SYMBOL INTERVAL PERIOD)) = Some one_bar_frame"
    using f by (simp add: bot_with_def)
  have ne: "\<not> df_empty one_bar_frame"
    by (simp add: df_empty_def one_bar_frame_def)
  have c': "calculate_indicators declining_ta
      (fetch_data (Inr one_bar_frame) (init SYMBOL INTERVAL PERIOD)) = Inr (bot_with one_bar_frame)"
    using f c by simp
  have n: "run_trading_strategy declining_ta (Inr one_bar_frame) \<noteq> Exited"
    by (simp add: run_trading_strategy_def Let_def d ne c' split: sum.splits retval.splits option.splits)
  from short_series_no_decision [OF s, of declining_ta] c' n
  have "run_trading_strategy declining_ta (Inr one_bar_frame) = Raised IndexError"
    by simp
  with s c' show ?thesis by simp
qed

text \<open>
  C10: \<^verbatim>\<open>generate_signal\<close> returns the pair \<^verbatim>\<open>('HOLD', None)\<close> exactly on the paths
  where the data is missing or empty or a required indicator label is absent, and a
  triple whenever it returns on another path. In a run, a bot that reaches
  \<^verbatim>\<open>generate_signal\<close> on one of these paths ends in the ValueError of the unpacking
  into three variables: no HOLD decision is reported.
\<close>

theorem pair_result_breaks_unpacking:
  "(generate_signal self = Inr (Tuple2 s p) \<longleftrightarrow> s = HOLD \<and> p = None \<and> two_tuple_path self)
   \<and> (\<forall>r. generate_signal self = Inr r \<and> \<not> two_tuple_path self \<longrightarrow>
          (\<exists>sg price reason. r = Tuple3 sg price reason))
   \<and> (\<forall>bot'. data (fetch_data history (init SYMBOL INTERVAL PERIOD)) \<noteq> None
          \<and> calculate_indicators ta (fetch_data history (init SYMBOL INTERVAL PERIOD)) = Inr bot'
          \<and> two_tuple_path bot' \<longrightarrow>
          run_trading_strategy ta history = Raised ValueError)"
proof (intro conjI allI impI)
  show "generate_signal self = Inr (Tuple2 s p) \<longleftrightarrow> s = HOLD \<and> p = None \<and> two_tuple_path self"
    by (rule generate_signal_pair_iff)
next
  fix r
  assume a: "generate_signal self = Inr r \<and> \<not> two_tuple_path self"
  show "\<exists>sg price reason. r = Tuple3 sg price reason"
  proof (cases r)
    case (Tuple2 sg pr)
    then show ?thesis using a generate_signal_pair_iff [of self sg pr] by simp
  next
    case (Tuple3 sg price reason)
    then show ?thesis by simp
  qed
next
  fix bot'
  let ?bot = "fetch_data history (init SYMBOL INTERVAL PERIOD)"
  assume a: "data ?bot \<noteq> None \<and> calculate_indicators ta ?bot = Inr bot' \<and> two_tuple_path bot'"
  then obtain df where d: "data ?bot = Some df" by auto
  have "generate_signal bot' = Inr (Tuple2 HOLD None)"
    using a generate_signal_pair_iff [of bot' HOLD None] by simp
  then show "run_trading_strategy ta history = Raised ValueError"
    using a by (intro run_pair_raises [OF d]) simp_all
qed

theorem pair_result_breaks_unpacking_witness:
  "two_tuple_path (bot_with raw_frame)
   \<and> generate_signal (bot_with raw_frame) = Inr (Tuple2 HOLD None)
   \<and> calculate_indicators declining_ta (fetch_data (Inr raw_frame) (init SYMBOL INTERVAL PERIOD))
       = Inr (bot_with raw_frame)
   \<and> run_trading_strategy declining_ta (Inr raw_frame) = Raised ValueError"
proof -
  have t: "two_tuple_path (bot_with raw_frame)"
    by (simp add: two_tuple_path_def bot_with_def raw_frame_def df_empty_def required_cols_def)
  have f: "fetch_data (Inr raw_frame) (init SYMBOL INTERVAL PERIOD) = bot_with raw_frame"
    by (simp add: fetch_data_def raw_frame_def df_empty_def bot_with_def)
  have c: "calculate_indicators declining_ta (bot_with raw_frame) = Inr (bot_with raw_frame)"
    by (simp add: calculate_indicators_def declining_ta_def bot_with_def init_def raw_frame_def
        df_empty_def bind_err_def rename_columns_def rename_label_def macd_renames_def)
  have d: "data (bot_with raw_frame) \<noteq> None"
    by (simp add: bot_with_def)
  note w = pair_result_breaks_unpacking
    [of "bot_with raw_frame" HOLD None "Inr raw_frame" declining_ta]
  have g: "generate_signal (bot_with raw_frame) = Inr (Tuple2 HOLD None)"
    using w t by simp
  have r: "run_trading_strategy declining_ta (Inr raw_frame) = Raised ValueError"
    using w t f c d by simp
  from t g f c r show ?thesis by simp
qed

section \<open>The specified library on two raw bars\<close>


lemma close_reals_append_cols:
  assumes "''Close'' \<notin> set (map fst cols)"
  shows "close_reals (append_cols cols df) = close_reals df"
  using assms
  by (induction cols df rule: append_cols.induct) (auto simp: close_reals_def update_conv')








section \<open>The frame of the indicator engine\<close>




section \<open>The specified RSI stays between 0 and 100\<close>

lemma smooth_from_nonneg:
  assumes "0 \<le> alpha" and "alpha \<le> 1" and "0 \<le> a" and "\<forall>v \<in> set vs. 0 \<le> v"
  shows "\<forall>x \<in> set (smooth_from alpha a vs). 0 \<le> x"
  using assms(3,4)
proof (induction vs arbitrary: a)
  case Nil
  then show ?case by simp
next
  case (Cons v vs)
  let ?a' = "alpha * v + (1 - alpha) * a"
  have v: "0 \<le> v" and vs: "\<forall>v \<in> set vs. 0 \<le> v"
    using Cons.prems(2) by simp_all
  have a': "0 \<le> ?a'"
    using assms(1,2) Cons.prems(1) v by (intro add_nonneg_nonneg mult_nonneg_nonneg) simp_all
  have "\<forall>x \<in> set (smooth_from alpha ?a' vs). 0 \<le> x"
    using a' vs by (rule Cons.IH)
  then show ?case
    using a' by (simp add: Let_def)
qed

lemma length_smooth_from: "length (smooth_from alpha a vs) = length vs"
  by (induction vs arbitrary: a) (simp_all add: Let_def)

lemma length_seeded_smooth: "length (seeded_smooth alpha n vs) = length vs"
  by (auto simp: seeded_smooth_def Let_def length_smooth_from)

lemma seeded_smooth_nonneg:
  assumes "0 \<le> alpha" and "alpha \<le> 1" and "\<forall>v \<in> set vs. 0 \<le> v"
    and "Some x \<in> set (seeded_smooth alpha n vs)"
  shows "0 \<le> x"
proof (cases "n = 0 \<or> length vs < n")
  case True
  then show ?thesis using assms(4) by (simp add: seeded_smooth_def)
next
  case False
  let ?seed = "sum_list (take n vs) / real n"
  have "\<forall>v \<in> set (take n vs). 0 \<le> v"
    using assms(3) by (auto dest: in_set_takeD)
  then have seed: "0 \<le> ?seed"
    by (simp add: sum_list_nonneg)
  have "\<forall>v \<in> set (drop n vs). 0 \<le> v"
    using assms(3) by (auto dest: in_set_dropD)
  then have rest: "\<forall>y \<in> set (smooth_from alpha ?seed (drop n vs)). 0 \<le> y"
    using smooth_from_nonneg [OF assms(1,2) seed] by blast
  have "x = ?seed \<or> x \<in> set (smooth_from alpha ?seed (drop n vs))"
    using assms(4) False by (auto simp: seeded_smooth_def Let_def)
  then show ?thesis using seed rest by auto
qed

lemma seeded_smooth_defined:
  assumes "i < length vs"
  shows "seeded_smooth alpha n vs ! i = None \<longleftrightarrow> n = 0 \<or> length vs < n \<or> i < n - 1"
proof (cases "n = 0 \<or> length vs < n")
  case True
  then show ?thesis using assms by (auto simp: seeded_smooth_def)
next
  case False
  show ?thesis
  proof (cases "i < n - 1")
    case True
    then show ?thesis using False by (simp add: seeded_smooth_def Let_def nth_append)
  next
    case ge: False
    let ?seed = "sum_list (take n vs) / real n"
    let ?tl = "Some ?seed # map Some (smooth_from alpha ?seed (drop n vs))"
    have "i - (n - 1) < length ?tl"
      using assms False ge by (simp add: length_smooth_from)
    then have "?tl ! (i - (n - 1)) \<noteq> None"
      by (cases "i - (n - 1)") (simp_all add: length_smooth_from)
    then show ?thesis
      using False ge by (simp add: seeded_smooth_def Let_def nth_append)
  qed
qed

lemma wilder_nonneg:
  assumes "\<forall>v \<in> set vs. 0 \<le> v" and "Some x \<in> set (wilder n vs)"
  shows "0 \<le> x"
proof (cases "n = 0")
  case True
  then show ?thesis using assms(2) by (simp add: wilder_def seeded_smooth_def)
next
  case False
  then have "1 / real n \<le> 1" by simp
  then show ?thesis
    using seeded_smooth_nonneg [of "1 / real n" vs x n] assms by (simp add: wilder_def)
qed

lemma avg_gain_nonneg:
  assumes "Some g \<in> set (avg_gain n xs)"
  shows "0 \<le> g"
  using assms wilder_nonneg [of "map (\<lambda>d. max d 0) (deltas xs)" g n]
  by (auto simp: avg_gain_def split: if_splits)

lemma avg_loss_nonneg:
  assumes "Some l \<in> set (avg_loss n xs)"
  shows "0 \<le> l"
  using assms wilder_nonneg [of "map (\<lambda>d. max (- d) 0) (deltas xs)" l n]
  by (auto simp: avg_loss_def split: if_splits)

lemma length_avg_gain: "length (avg_gain n xs) = length xs"
  by (cases xs) (simp_all add: avg_gain_def wilder_def length_seeded_smooth deltas_def)

lemma length_avg_loss: "length (avg_loss n xs) = length xs"
  by (cases xs) (simp_all add: avg_loss_def wilder_def length_seeded_smooth deltas_def)

lemma length_rsi: "length (rsi n xs) = length xs"
  by (simp add: rsi_def length_avg_gain length_avg_loss)

lemma avg_defined_together:
  assumes "i < length xs"
  shows "avg_gain n xs ! i = None \<longleftrightarrow> avg_loss n xs ! i = None"
proof (cases i)
  case 0
  then show ?thesis using assms by (auto simp: avg_gain_def avg_loss_def)
next
  case (Suc j)
  then have j: "j < length (deltas xs)"
    using assms by (cases xs) (simp_all add: deltas_def)
  show ?thesis
    using assms Suc j
      seeded_smooth_defined [of j "map (\<lambda>d. max d 0) (deltas xs)" "1 / real n" n]
      seeded_smooth_defined [of j "map (\<lambda>d. max (- d) 0) (deltas xs)" "1 / real n" n]
    by (auto simp: avg_gain_def avg_loss_def wilder_def)
qed

lemma rsi_value_bounds:
  assumes "0 \<le> g" and "0 \<le> l" and "rsi_value (Some g) (Some l) = Some v"
  shows "0 \<le> v \<and> v \<le> 100"
proof (cases "l = 0")
  case True
  then show ?thesis using assms by auto
next
  case False
  then have l: "0 < l" using assms(2) by simp
  have "1 \<le> 1 + g / l" using assms(1) l by simp
  then have "0 < 100 / (1 + g / l) \<and> 100 / (1 + g / l) \<le> 100"
    by (simp add: divide_le_eq)
  then show ?thesis using assms(3) False by auto
qed

lemma rsi_nth:
  assumes "i < length xs"
  shows "rsi n xs ! i = rsi_value (avg_gain n xs ! i) (avg_loss n xs ! i)"
  using assms by (simp add: rsi_def length_avg_gain length_avg_loss)

lemma rsi_bounds:
  assumes "Some v \<in> set (rsi n xs)"
  shows "0 \<le> v \<and> v \<le> 100"
proof -
  obtain i where i: "i < length xs" and v: "rsi n xs ! i = Some v"
    using assms by (auto simp: in_set_conv_nth length_rsi)
  have r: "rsi_value (avg_gain n xs ! i) (avg_loss n xs ! i) = Some v"
    using rsi_nth [OF i] v by simp
  then obtain g l where g: "avg_gain n xs ! i = Some g" and l: "avg_loss n xs ! i = Some l"
    by (cases "avg_gain n xs ! i"; cases "avg_loss n xs ! i") simp_all
  have "Some g \<in> set (avg_gain n xs)"
    using g i by (metis length_avg_gain nth_mem)
  then have g0: "0 \<le> g" by (rule avg_gain_nonneg)
  have "Some l \<in> set (avg_loss n xs)"
    using l i by (metis length_avg_loss nth_mem)
  then have l0: "0 \<le> l" by (rule avg_loss_nonneg)
  show ?thesis
    using rsi_value_bounds [OF g0 l0] r g l by simp
qed

lemma rsi_no_loss:
  assumes "i < length xs" and "avg_loss n xs ! i = Some 0"
  shows "rsi n xs ! i = Some 100"
proof -
  have "avg_gain n xs ! i \<noteq> None"
    using avg_defined_together [OF assms(1), of n] assms(2) by simp
  then obtain g where "avg_gain n xs ! i = Some g" by auto
  then show ?thesis
    using rsi_nth [OF assms(1), of n] assms(2) by simp
qed

section \<open>The frame enriched by the specified library\<close>

lemma label_iff_map_of: "c \<in> fst ` set al \<longleftrightarrow> map_of al c \<noteq> None"
  by (simp add: map_of_eq_None_iff)

lemma macd_renames_sets:
  "fst ` set macd_renames = {''MACD_12_26_9'', ''MACDH_12_26_9'', ''MACDS_12_26_9''}"
  "snd ` set macd_renames = {''MACD'', ''MACD_H'', ''MACD_S''}"
  by (simp_all add: macd_renames_def)

lemma map_of_rename_other:
  assumes "c \<notin> set (map fst macd_renames) \<union> set (map snd macd_renames)"
  shows "map_of (df_columns (rename_columns macd_renames df)) c = map_of (df_columns df) c"
proof -
  let ?P = "\<lambda>x. x = c"
  have keep: "rename_label macd_renames x = x" if "?P x" for x
    using that assms by (simp add: rename_label_macd macd_renames_sets)
  have out: "\<not> ?P (rename_label macd_renames x)" if "\<not> ?P x" for x
    using that assms by (auto simp: rename_label_macd macd_renames_sets)
  have "filter (\<lambda>(k, vs). ?P k) (df_columns (rename_columns macd_renames df)) =
      filter (\<lambda>(k, vs). ?P k) (df_columns df)"
    using keep out by (rule rename_columns_filter)
  then show ?thesis
    using map_of_filter_label [of ?P c "df_columns (rename_columns macd_renames df)"]
      map_of_filter_label [of ?P c "df_columns df"]
    by simp
qed

lemma label_renamed:
  assumes "c \<in> set (map fst (df_columns df))"
  shows "rename_label m c \<in> set (map fst (df_columns (rename_columns m df)))"
  using assms unfolding rename_columns_labels by (rule imageI)

lemma spec_calculate:
  assumes "data self = Some df" and "\<not> df_empty df" and "close_reals df = Some xs"
    and "macd_labels sp = (lm, lh, ls)"
  shows "calculate_indicators (spec_ta sp) self =
     Inr (self\<lparr>data := Some (rename_columns macd_renames
        (append_cols [(''SMA_200'', map to_cell (sma 200 xs))]
          (append_cols [(''SMA_50'', map to_cell (sma 50 xs))]
            (append_cols
               [(lm, map to_cell (macd_line xs)), (lh, map to_cell (macd_hist xs)),
                (ls, map to_cell (macd_signal xs))]
               (append_cols [(''RSI_14'', map to_cell (rsi 14 xs))] df)))))\<rparr>)"
proof -
  let ?r = "[(''RSI_14'', map to_cell (rsi 14 xs))]"
  let ?m = "[(lm, map to_cell (macd_line xs)), (lh, map to_cell (macd_hist xs)),
                (ls, map to_cell (macd_signal xs))]"
  let ?s50 = "[(''SMA_50'', map to_cell (sma 50 xs))]"
  have nc: "''Close'' \<notin> set (map fst ?m)"
    using assms(4) by (cases sp) auto
  have c1: "close_reals (append_cols ?r df) = Some xs"
    using assms(3) by (subst close_reals_append_cols) simp_all
  have c2: "close_reals (append_cols ?m (append_cols ?r df)) = Some xs"
    using c1 nc by (subst close_reals_append_cols) simp_all
  have c3: "close_reals (append_cols ?s50 (append_cols ?m (append_cols ?r df))) = Some xs"
    using c2 by (subst close_reals_append_cols) simp_all
  have r: "ta_rsi (spec_ta sp) df = Inr ?r"
    using assms(3) by (simp add: spec_ta_def)
  have m: "ta_macd (spec_ta sp) (append_cols ?r df) = Inr ?m"
    using c1 assms(4) by (simp add: spec_ta_def)
  have s50: "ta_sma (spec_ta sp) 50 (append_cols ?m (append_cols ?r df)) = Inr ?s50"
    using c2 by (simp add: spec_ta_def sma_label_def)
  have s200: "ta_sma (spec_ta sp) 200 (append_cols ?s50 (append_cols ?m (append_cols ?r df)))
      = Inr [(''SMA_200'', map to_cell (sma 200 xs))]"
    using c3 by (simp add: spec_ta_def sma_label_def)
  show ?thesis
    unfolding calculate_indicators_def
    by (simp only: assms(1) assms(2) option.case if_False bind_err_def r m s50 s200 sum.case Let_def)
qed

lemma spec_enriched_lookups:
  fixes df :: dataframe and r m h s s50 s200 :: column
  assumes "macd_labels sp = (lm, lh, ls)"
  defines "df' \<equiv> rename_columns macd_renames
        (append_cols [(''SMA_200'', s200)]
          (append_cols [(''SMA_50'', s50)]
            (append_cols [(lm, m), (lh, h), (ls, s)]
               (append_cols [(''RSI_14'', r)] df))))"
  shows "map_of (df_columns df') ''RSI_14'' = Some r"
    and "map_of (df_columns df') ''SMA_200'' = Some s200"
    and "map_of (df_columns df') ''SMA_50'' = Some s50"
    and "map_of (df_columns df') ''Close'' = map_of (df_columns df) ''Close''"
    and "{''RSI_14'', ''MACD'', ''SMA_50'', ''SMA_200''} \<subseteq> set (map fst (df_columns df'))"
proof -
  let ?d4 = "append_cols [(''SMA_200'', s200)]
          (append_cols [(''SMA_50'', s50)]
            (append_cols [(lm, m), (lh, h), (ls, s)]
               (append_cols [(''RSI_14'', r)] df)))"
  have ls: "lm = ''MACD_12_26_9''"
    "lh = ''MACDH_12_26_9'' \<and> ls = ''MACDS_12_26_9'' \<or> lh = ''MACDh_12_26_9'' \<and> ls = ''MACDs_12_26_9''"
    using assms(1) by (cases sp; simp)+
  show r: "map_of (df_columns df') ''RSI_14'' = Some r"
    unfolding df'_def using ls
    by (auto simp: map_of_rename_other macd_renames_sets update_conv')
  show s200: "map_of (df_columns df') ''SMA_200'' = Some s200"
    unfolding df'_def
    by (simp add: map_of_rename_other macd_renames_sets update_conv')
  show s50: "map_of (df_columns df') ''SMA_50'' = Some s50"
    unfolding df'_def
    by (simp add: map_of_rename_other macd_renames_sets update_conv')
  show "map_of (df_columns df') ''Close'' = map_of (df_columns df) ''Close''"
    unfolding df'_def using ls
    by (auto simp: map_of_rename_other macd_renames_sets update_conv')
  have "''MACD_12_26_9'' \<in> set (map fst (df_columns ?d4))"
    using ls(1) by (simp add: dom_update)
  then have "rename_label macd_renames ''MACD_12_26_9'' \<in> set (map fst (df_columns df'))"
    unfolding df'_def by (rule label_renamed)
  then have macd: "''MACD'' \<in> set (map fst (df_columns df'))"
    by (simp add: rename_label_macd)
  have "''RSI_14'' \<in> set (map fst (df_columns df'))"
    "''SMA_50'' \<in> set (map fst (df_columns df'))"
    "''SMA_200'' \<in> set (map fst (df_columns df'))"
    using r s50 s200 by (simp_all add: label_iff_map_of)
  with macd show "{''RSI_14'', ''MACD'', ''SMA_50'', ''SMA_200''} \<subseteq> set (map fst (df_columns df'))"
    by simp
qed

lemma rising_frame_closes:
  "close_reals rising_frame = Some [1, 2, 3, 4, 5, 6, 7, 8, 9, 10, 11, 12, 13, 14, 15, 16]"
  by (simp add: close_reals_def rising_frame_def)

lemma rising_no_loss:
  "avg_loss 14 [1, 2, 3, 4, 5, 6, 7, 8, 9, 10, 11, 12, 13, 14, 15, 16] ! 14 = Some 0"
  by (simp add: avg_loss_def wilder_def seeded_smooth_def deltas_def Let_def nth_append)

text \<open>
  C7: with the library of the specification, for either spelling of the MACD labels,
  on a frame with finite closes, every value of the \<^verbatim>\<open>RSI_14\<close> column that
  \<^verbatim>\<open>calculate_indicators\<close> stores is either undefined or a number between 0 and 100,
  and it is exactly 100 at every position where the Wilder average of the losses over
  14 periods is zero.
\<close>

theorem rsi_within_bounds:
  assumes "data self = Some df" and "\<not> df_empty df" and "close_reals df = Some xs"
  shows "\<exists>self' df' col. calculate_indicators (spec_ta sp) self = Inr self'
     \<and> data self' = Some df'
     \<and> map_of (df_columns df') ''RSI_14'' = Some col
     \<and> col = map to_cell (rsi 14 xs)
     \<and> (\<forall>v \<in> set col. v = NaN \<or> (\<exists>r. v = Finite r \<and> 0 \<le> r \<and> r \<le> 100))
     \<and> (\<forall>i < length xs. avg_loss 14 xs ! i = Some 0 \<longrightarrow> col ! i = Finite 100)"
proof -
  obtain lm lh ls where ml: "macd_labels sp = (lm, lh, ls)"
    by (cases "macd_labels sp")
  let ?col = "map to_cell (rsi 14 xs)"
  let ?df' = "rename_columns macd_renames
        (append_cols [(''SMA_200'', map to_cell (sma 200 xs))]
          (append_cols [(''SMA_50'', map to_cell (sma 50 xs))]
            (append_cols
               [(lm, map to_cell (macd_line xs)), (lh, map to_cell (macd_hist xs)),
                (ls, map to_cell (macd_signal xs))]
               (append_cols [(''RSI_14'', ?col)] df))))"
  have c: "calculate_indicators (spec_ta sp) self = Inr (self\<lparr>data := Some ?df'\<rparr>)"
    by (rule spec_calculate [OF assms ml])
  have l: "map_of (df_columns ?df') ''RSI_14'' = Some ?col"
    by (rule spec_enriched_lookups(1) [OF ml])
  have b: "\<forall>v \<in> set ?col. v = NaN \<or> (\<exists>r. v = Finite r \<and> 0 \<le> r \<and> r \<le> 100)"
  proof
    fix v
    assume "v \<in> set ?col"
    then obtain w where w: "w \<in> set (rsi 14 xs)" and v: "v = to_cell w" by auto
    show "v = NaN \<or> (\<exists>r. v = Finite r \<and> 0 \<le> r \<and> r \<le> 100)"
    proof (cases w)
      case None
      then show ?thesis using v by simp
    next
      case (Some r)
      then have "0 \<le> r \<and> r \<le> 100" using w rsi_bounds by blast
      then show ?thesis using v Some by simp
    qed
  qed
  have z: "\<forall>i < length xs. avg_loss 14 xs ! i = Some 0 \<longrightarrow> ?col ! i = Finite 100"
    by (simp add: rsi_no_loss length_rsi)
  show ?thesis
    by (intro exI [of _ "self\<lparr>data := Some ?df'\<rparr>"] exI [of _ ?df'] exI [of _ ?col] conjI c l b z)
      simp_all
qed

theorem rsi_within_bounds_witness:
  "close_reals rising_frame = Some [1, 2, 3, 4, 5, 6, 7, 8, 9, 10, 11, 12, 13, 14, 15, 16]
   \<and> avg_loss 14 [1, 2, 3, 4, 5, 6, 7, 8, 9, 10, 11, 12, 13, 14, 15, 16] ! 14 = Some 0
   \<and> (\<exists>self' df' col. calculate_indicators (spec_ta Library_case) (bot_with rising_frame) = Inr self'
         \<and> data self' = Some df'
         \<and> map_of (df_columns df') ''RSI_14'' = Some col
         \<and> col ! 14 = Finite 100)"
proof -
  have d: "data (bot_with rising_frame) = Some rising_frame"
    by (simp add: bot_with_def)
  have ne: "\<not> df_empty rising_frame"
    by (simp add: df_empty_def rising_frame_def)
  obtain self' df' col
    where "calculate_indicators (spec_ta Library_case) (bot_with rising_frame) = Inr self'"
    and "data self' = Some df'" and "map_of (df_columns df') ''RSI_14'' = Some col"
    and z: "\<forall>i < length [1, 2, 3, 4, 5, 6, 7, 8, 9, 10, 11, 12, 13, 14, 15, 16 :: real].
        avg_loss 14 [1, 2, 3, 4, 5, 6, 7, 8, 9, 10, 11, 12, 13, 14, 15, 16] ! i = Some 0 \<longrightarrow>
        col ! i = Finite 100"
    using rsi_within_bounds [OF d ne rising_frame_closes, of Library_case] by blast
  moreover have "col ! 14 = Finite 100"
    using z rising_no_loss by simp
  ultimately show ?thesis
    using rising_frame_closes rising_no_loss by blast
qed

section \<open>Fewer bars than the longest window\<close>











end
